theory Spec2Isabelle
  imports Complex_Main "HOL-Library.Multiset"
begin

section \<open>The vg commands module (src/p5/02_M/M_1_4_01/sketch.js, lines 147-1139)\<close>

text \<open>
  The module is JavaScript: every function probes its argument at run time
  (\<^verbatim>\<open>shape.commands\<close>, \<^verbatim>\<open>shape.shapes\<close>, \<^verbatim>\<open>Array.isArray(shape)\<close>,
  \<^verbatim>\<open>shape[0].x !== undefined\<close>) and either returns a value or throws.  The embedding
  keeps that: one type \<open>jsval\<close> of run-time values, one type \<open>error\<close> of thrown
  exceptions, and every function returns \<open>error + jsval\<close> (\<open>Inl\<close> is a throw).

  Conventions of the embedding.
  \<^item> A number is a real (\<open>Num\<close>), \<open>NaN\<close>, or \<open>Undef\<close> when the field read is
    \<^verbatim>\<open>undefined\<close>.  Rounding of IEEE doubles, overflow and the infinities are not
    modelled.
  \<^item> \<open>PointV\<close>, \<open>RectV\<close> and \<open>ColorV\<close> are plain objects with the fields \<^verbatim>\<open>x, y\<close>,
    \<^verbatim>\<open>x, y, width, height\<close> and \<^verbatim>\<open>r, g, b, a\<close>; \<open>PathV\<close> and \<open>GroupV\<close> are instances of the
    classes \<^verbatim>\<open>Path\<close> (field \<^verbatim>\<open>commands\<close>) and \<^verbatim>\<open>Group\<close> (field \<^verbatim>\<open>shapes\<close>); \<open>ArrayV\<close> is a
    JavaScript array.
  \<^item> Reading a property of \<^verbatim>\<open>undefined\<close> or \<^verbatim>\<open>null\<close> throws a \<^verbatim>\<open>TypeError\<close>, as does calling
    a method the object does not have; assigning \<^verbatim>\<open>undefined\<close> to an array's \<^verbatim>\<open>length\<close>
    throws a \<^verbatim>\<open>RangeError\<close>.
  \<^item> The classes the module requires (\<^verbatim>\<open>Rect\<close>, \<^verbatim>\<open>Path\<close>, \<^verbatim>\<open>Group\<close>, \<^verbatim>\<open>Transform\<close>,
    \<^verbatim>\<open>Transformable\<close>) and its helpers (\<^verbatim>\<open>math\<close>, \<^verbatim>\<open>geo\<close>, \<^verbatim>\<open>random\<close>, \<^verbatim>\<open>bezier\<close>) are not part
    of the sources.  A function of the module that calls one of them takes it as a
    parameter, or uses a definition marked ``Modelled from the spec'' where the spec
    says what the collaborator does; the statements that need a collaborator's
    meaning are instantiated with such a definition.
\<close>

subsection \<open>Values\<close>

datatype jsnum = Undef | NaN | Num real

datatype cmd_type = MOVETO | LINETO | QUADTO | CURVETO | CLOSE

record command =
  ctype :: cmd_type
  cmd_x :: jsnum
  cmd_y :: jsnum
  cmd_x1 :: jsnum
  cmd_y1 :: jsnum
  cmd_x2 :: jsnum
  cmd_y2 :: jsnum

record color =
  col_r :: real
  col_g :: real
  col_b :: real
  col_a :: real

record rect =
  rect_x :: jsnum
  rect_y :: jsnum
  rect_width :: jsnum
  rect_height :: jsnum

record path =
  commands :: "command list"
  fill :: "color option"
  stroke :: "color option"
  strokeWidth :: jsnum

datatype jsval =
    Undefined
  | Null
  | PointV jsnum jsnum
  | RectV rect
  | ColorV color
  | PathV path
  | GroupV "jsval list"
  | ArrayV "jsval list"

datatype error = TypeError | RangeError | Error string

type_synonym result = "error + jsval"

text \<open>The second argument of \<^verbatim>\<open>vg.delete\<close>: \<^verbatim>\<open>null\<close>, \<^verbatim>\<open>undefined\<close>, or a rectangle object.\<close>

datatype bounding = BNull | BUndefined | BRect rect

text \<open>\<^verbatim>\<open>o.x\<close> and \<^verbatim>\<open>o.y\<close>: a \<^verbatim>\<open>TypeError\<close> on \<^verbatim>\<open>undefined\<close> and \<^verbatim>\<open>null\<close>, \<^verbatim>\<open>undefined\<close> on an object
  without the field.\<close>

fun prop_x :: "jsval \<Rightarrow> error + jsnum" where
  "prop_x Undefined = Inl TypeError"
| "prop_x Null = Inl TypeError"
| "prop_x (PointV x y) = Inr x"
| "prop_x (RectV r) = Inr (rect_x r)"
| "prop_x _ = Inr Undef"

fun prop_y :: "jsval \<Rightarrow> error + jsnum" where
  "prop_y Undefined = Inl TypeError"
| "prop_y Null = Inl TypeError"
| "prop_y (PointV x y) = Inr y"
| "prop_y (RectV r) = Inr (rect_y r)"
| "prop_y _ = Inr Undef"

text \<open>The test \<^verbatim>\<open>shape[0].x !== undefined && shape[0].y !== undefined\<close> on the first element
  of a non-empty array.\<close>

definition has_xy :: "jsval \<Rightarrow> error + bool" where
  "has_xy v =
     (case prop_x v of
        Inl e \<Rightarrow> Inl e
      | Inr x \<Rightarrow>
          if x = Undef then Inr False
          else (case prop_y v of Inl e \<Rightarrow> Inl e | Inr y \<Rightarrow> Inr (y \<noteq> Undef)))"

subsection \<open>\<^verbatim>\<open>_cloneCommand\<close> (lines 167-183)\<close>

definition cloneCommand :: "command \<Rightarrow> command" where
  "cloneCommand cmd =
     (let t = ctype cmd in
      \<lparr>ctype = t,
       cmd_x = (if t \<noteq> CLOSE then cmd_x cmd else Undef),
       cmd_y = (if t \<noteq> CLOSE then cmd_y cmd else Undef),
       cmd_x1 = (if t = QUADTO \<or> t = CURVETO then cmd_x1 cmd else Undef),
       cmd_y1 = (if t = QUADTO \<or> t = CURVETO then cmd_y1 cmd else Undef),
       cmd_x2 = (if t = CURVETO then cmd_x2 cmd else Undef),
       cmd_y2 = (if t = CURVETO then cmd_y2 cmd else Undef)\<rparr>)"

subsection \<open>\<^verbatim>\<open>vg.deletePoints\<close>, \<^verbatim>\<open>vg.deletePaths\<close>, \<^verbatim>\<open>vg.delete\<close> (lines 804-890)\<close>

text \<open>\<^verbatim>\<open>bounding.contains(x, y)\<close>.  \<^verbatim>\<open>Rect.prototype.contains\<close> is not in the sources: it is the
  parameter \<open>contains\<close>.\<close>

definition bounding_contains ::
  "(rect \<Rightarrow> jsnum \<Rightarrow> jsnum \<Rightarrow> bool) \<Rightarrow> bounding \<Rightarrow> jsnum \<Rightarrow> jsnum \<Rightarrow> error + bool" where
  "bounding_contains contains b x y =
     (case b of BRect r \<Rightarrow> Inr (contains r x y) | _ \<Rightarrow> Inl TypeError)"

text \<open>The condition under which a vertex is kept:
  \<^verbatim>\<open>(invert && bounding.contains(x, y)) || (!invert && !bounding.contains(x, y))\<close>.\<close>

definition keeps ::
  "(rect \<Rightarrow> jsnum \<Rightarrow> jsnum \<Rightarrow> bool) \<Rightarrow> bounding \<Rightarrow> bool \<Rightarrow> jsnum \<Rightarrow> jsnum \<Rightarrow> error + bool" where
  "keeps contains b invert x y =
     (case bounding_contains contains b x y of
        Inl e \<Rightarrow> Inl e
      | Inr c \<Rightarrow> Inr ((invert \<and> c) \<or> (\<not> invert \<and> \<not> c)))"

text \<open>The loop over \<^verbatim>\<open>shape.commands\<close>; \<open>newCurve\<close> is the loop's flag.\<close>

fun deletePoints_commands ::
  "(rect \<Rightarrow> jsnum \<Rightarrow> jsnum \<Rightarrow> bool) \<Rightarrow> bounding \<Rightarrow> bool \<Rightarrow> bool \<Rightarrow> command list
     \<Rightarrow> error + command list" where
  "deletePoints_commands contains b invert newCurve [] = Inr []"
| "deletePoints_commands contains b invert newCurve (c # cs) =
     (let cmd = cloneCommand c in
      case (if cmd_x cmd = Undef then Inr True
            else keeps contains b invert (cmd_x cmd) (cmd_y cmd)) of
        Inl e \<Rightarrow> Inl e
      | Inr False \<Rightarrow> deletePoints_commands contains b invert newCurve cs
      | Inr True \<Rightarrow>
          (let cmd' = (if newCurve \<and> ctype cmd \<noteq> MOVETO then cmd\<lparr>ctype := MOVETO\<rparr> else cmd);
               newCurve' = (if ctype cmd' = MOVETO then False
                            else if ctype cmd' = CLOSE then True else newCurve)
           in case deletePoints_commands contains b invert newCurve' cs of
                Inl e \<Rightarrow> Inl e
              | Inr out \<Rightarrow> Inr (cmd' # out)))"

text \<open>The loop over a point array: \<^verbatim>\<open>points.push(_cloneCommand(pt))\<close> for every kept \<^verbatim>\<open>pt\<close>.
  The element has no \<^verbatim>\<open>type\<close>, so its clone is the object \<^verbatim>\<open>{type: undefined, x: pt.x, y: pt.y}\<close>,
  a point.\<close>

fun deletePoints_points ::
  "(rect \<Rightarrow> jsnum \<Rightarrow> jsnum \<Rightarrow> bool) \<Rightarrow> bounding \<Rightarrow> bool \<Rightarrow> jsval list \<Rightarrow> error + jsval list" where
  "deletePoints_points contains b invert [] = Inr []"
| "deletePoints_points contains b invert (pt # pts) =
     (case prop_x pt of
        Inl e \<Rightarrow> Inl e
      | Inr x \<Rightarrow>
     (case prop_y pt of
        Inl e \<Rightarrow> Inl e
      | Inr y \<Rightarrow>
     (case keeps contains b invert x y of
        Inl e \<Rightarrow> Inl e
      | Inr False \<Rightarrow> deletePoints_points contains b invert pts
      | Inr True \<Rightarrow>
          (case deletePoints_points contains b invert pts of
             Inl e \<Rightarrow> Inl e
           | Inr out \<Rightarrow> Inr (PointV x y # out)))))"

fun deletePoints ::
  "(rect \<Rightarrow> jsnum \<Rightarrow> jsnum \<Rightarrow> bool) \<Rightarrow> jsval \<Rightarrow> bounding \<Rightarrow> bool \<Rightarrow> result"
and deletePoints_each ::
  "(rect \<Rightarrow> jsnum \<Rightarrow> jsnum \<Rightarrow> bool) \<Rightarrow> jsval list \<Rightarrow> bounding \<Rightarrow> bool \<Rightarrow> error + jsval list"
where
  "deletePoints contains Undefined b invert = Inl TypeError"
| "deletePoints contains Null b invert = Inl TypeError"
| "deletePoints contains (PathV p) b invert =
     (case deletePoints_commands contains b invert True (commands p) of
        Inl e \<Rightarrow> Inl e
      | Inr cs \<Rightarrow> Inr (PathV (p\<lparr>commands := cs\<rparr>)))"
| "deletePoints contains (GroupV ss) b invert =
     (case deletePoints_each contains ss b invert of
        Inl e \<Rightarrow> Inl e
      | Inr ds \<Rightarrow> Inr (GroupV ds))"
| "deletePoints contains (ArrayV []) b invert = Inr (ArrayV [])"
| "deletePoints contains (ArrayV (s # ss)) b invert =
     (case has_xy s of
        Inl e \<Rightarrow> Inl e
      | Inr True \<Rightarrow>
          (case deletePoints_points contains b invert (s # ss) of
             Inl e \<Rightarrow> Inl e
           | Inr pts \<Rightarrow> Inr (ArrayV pts))
      | Inr False \<Rightarrow>
          (case deletePoints_each contains (s # ss) b invert of
             Inl e \<Rightarrow> Inl e
           | Inr ds \<Rightarrow> Inr (ArrayV ds)))"
| "deletePoints contains (PointV x y) b invert = Inl RangeError"
| "deletePoints contains (RectV r) b invert = Inl RangeError"
| "deletePoints contains (ColorV c) b invert = Inl RangeError"
| "deletePoints_each contains [] b invert = Inr []"
| "deletePoints_each contains (s # ss) b invert =
     (case deletePoints contains s b invert of
        Inl e \<Rightarrow> Inl e
      | Inr d \<Rightarrow>
          (case deletePoints_each contains ss b invert of
             Inl e \<Rightarrow> Inl e
           | Inr ds \<Rightarrow> Inr (d # ds)))"

text \<open>The inner loop of \<^verbatim>\<open>vg.deletePaths\<close>: is some vertex of the path inside the rectangle?\<close>

fun selected_commands ::
  "(rect \<Rightarrow> jsnum \<Rightarrow> jsnum \<Rightarrow> bool) \<Rightarrow> bounding \<Rightarrow> command list \<Rightarrow> error + bool" where
  "selected_commands contains b [] = Inr False"
| "selected_commands contains b (cmd # cs) =
     (if cmd_x cmd \<noteq> Undef then
        (case bounding_contains contains b (cmd_x cmd) (cmd_y cmd) of
           Inl e \<Rightarrow> Inl e
         | Inr True \<Rightarrow> Inr True
         | Inr False \<Rightarrow> selected_commands contains b cs)
      else selected_commands contains b cs)"

fun deletePaths ::
  "(rect \<Rightarrow> jsnum \<Rightarrow> jsnum \<Rightarrow> bool) \<Rightarrow> jsval \<Rightarrow> bounding \<Rightarrow> bool \<Rightarrow> result"
and deletePaths_each ::
  "(rect \<Rightarrow> jsnum \<Rightarrow> jsnum \<Rightarrow> bool) \<Rightarrow> jsval list \<Rightarrow> bounding \<Rightarrow> bool \<Rightarrow> error + jsval list"
where
  "deletePaths contains Undefined b invert = Inl TypeError"
| "deletePaths contains Null b invert = Inl TypeError"
| "deletePaths contains (PathV p) b invert = Inr Null"
| "deletePaths contains (GroupV ss) b invert =
     (case deletePaths_each contains ss b invert of
        Inl e \<Rightarrow> Inl e
      | Inr ds \<Rightarrow> Inr (GroupV ds))"
| "deletePaths contains (ArrayV ss) b invert =
     (case deletePaths_each contains ss b invert of
        Inl e \<Rightarrow> Inl e
      | Inr ds \<Rightarrow> Inr (ArrayV ds))"
| "deletePaths contains (PointV x y) b invert = Inr Undefined"
| "deletePaths contains (RectV r) b invert = Inr Undefined"
| "deletePaths contains (ColorV c) b invert = Inr Undefined"
| "deletePaths_each contains [] b invert = Inr []"
| "deletePaths_each contains (s # ss) b invert =
     (case s of
        Undefined \<Rightarrow> Inl TypeError
      | Null \<Rightarrow> Inl TypeError
      | PathV p \<Rightarrow>
          (case selected_commands contains b (commands p) of
             Inl e \<Rightarrow> Inl e
           | Inr selected \<Rightarrow>
               (case deletePaths_each contains ss b invert of
                  Inl e \<Rightarrow> Inl e
                | Inr ds \<Rightarrow>
                    Inr (if \<not> ((invert \<and> \<not> selected) \<or> (selected \<and> \<not> invert))
                         then s # ds else ds)))
      | GroupV gs \<Rightarrow>
          (case deletePaths contains s b invert of
             Inl e \<Rightarrow> Inl e
           | Inr subShapes \<Rightarrow>
               (case deletePaths_each contains ss b invert of
                  Inl e \<Rightarrow> Inl e
                | Inr ds \<Rightarrow> Inr (subShapes # ds)))
      | _ \<Rightarrow> deletePaths_each contains ss b invert)"

text \<open>\<^verbatim>\<open>vg['delete']\<close>.  \<open>scope\<close> is \<open>Some s\<close> for the string \<open>s\<close> and \<open>None\<close> for any value that
  is not a string (the comparisons are \<^verbatim>\<open>===\<close>).\<close>

definition vg_delete ::
  "(rect \<Rightarrow> jsnum \<Rightarrow> jsnum \<Rightarrow> bool) \<Rightarrow> jsval \<Rightarrow> bounding \<Rightarrow> string option \<Rightarrow> bool \<Rightarrow> result" where
  "vg_delete contains shape b scope invert =
     (if shape = Null \<or> b = BNull then Inr Null
      else if scope = Some ''points'' then deletePoints contains shape b invert
      else if scope = Some ''paths'' then deletePaths contains shape b invert
      else Inl (Error ''Invalid scope.''))"


subsection \<open>\<^verbatim>\<open>Rect.prototype.contains\<close>\<close>

text \<open>Modelled from the spec: \<^verbatim>\<open>Rect.prototype.contains\<close> is not in the sources.  The spec says
  that a Rect is \<open>(x, y, width, height)\<close> and supports point containment; the model is the
  closed rectangle, and a comparison with \<open>NaN\<close> or \<^verbatim>\<open>undefined\<close> is false.  The theorems
  on \<^verbatim>\<open>vg.delete\<close> hold for every containment test; this one is their concrete instance.\<close>

fun rect_contains :: "rect \<Rightarrow> jsnum \<Rightarrow> jsnum \<Rightarrow> bool" where
  "rect_contains r (Num px) (Num py) =
     (case (rect_x r, rect_y r, rect_width r, rect_height r) of
        (Num x, Num y, Num w, Num h) \<Rightarrow> x \<le> px \<and> px \<le> x + w \<and> y \<le> py \<and> py \<le> y + h
      | _ \<Rightarrow> False)"
| "rect_contains r _ _ = False"

subsection \<open>Predicates used in the statements\<close>

text \<open>An element of a point array: an object whose \<^verbatim>\<open>x\<close> and \<^verbatim>\<open>y\<close> are defined.\<close>

fun is_point :: "jsval \<Rightarrow> bool" where
  "is_point (PointV x y) = (x \<noteq> Undef \<and> y \<noteq> Undef)"
| "is_point _ = False"

text \<open>The containment test of the rectangle \<open>r\<close> applied to a point.\<close>

fun point_inside :: "(rect \<Rightarrow> jsnum \<Rightarrow> jsnum \<Rightarrow> bool) \<Rightarrow> rect \<Rightarrow> jsval \<Rightarrow> bool" where
  "point_inside contains r (PointV x y) = contains r x y"
| "point_inside contains r _ = False"

subsection \<open>Numbers\<close>

text \<open>Arithmetic of JavaScript numbers on \<open>jsnum\<close>: an operand that is \<open>NaN\<close> or \<^verbatim>\<open>undefined\<close>
  makes the result \<open>NaN\<close> (\<^verbatim>\<open>undefined\<close> converts to \<open>NaN\<close>); \<^verbatim>\<open>Math.min\<close> and \<^verbatim>\<open>Math.max\<close>
  do the same.\<close>

definition num2 :: "(real \<Rightarrow> real \<Rightarrow> real) \<Rightarrow> jsnum \<Rightarrow> jsnum \<Rightarrow> jsnum" where
  "num2 f a b = (case (a, b) of (Num u, Num v) \<Rightarrow> Num (f u v) | _ \<Rightarrow> NaN)"

definition jadd :: "jsnum \<Rightarrow> jsnum \<Rightarrow> jsnum" where
  "jadd = num2 (+)"

definition jsub :: "jsnum \<Rightarrow> jsnum \<Rightarrow> jsnum" where
  "jsub = num2 (-)"

definition jmul :: "jsnum \<Rightarrow> jsnum \<Rightarrow> jsnum" where
  "jmul = num2 (*)"

definition jmin :: "jsnum \<Rightarrow> jsnum \<Rightarrow> jsnum" where
  "jmin = num2 min"

definition jmax :: "jsnum \<Rightarrow> jsnum \<Rightarrow> jsnum" where
  "jmax = num2 max"

subsection \<open>The class \<^verbatim>\<open>Rect\<close>\<close>

text \<open>Modelled from the spec: the constructor of \<^verbatim>\<open>Rect\<close> (\<^verbatim>\<open>../objects/rect\<close>) is not in the
  sources.  The spec's Rect is \<open>(x, y, width, height)\<close>; \<^verbatim>\<open>new Rect()\<close> without arguments is
  the spec's ``zero rect at origin''.\<close>

definition new_Rect :: "jsnum \<Rightarrow> jsnum \<Rightarrow> jsnum \<Rightarrow> jsnum \<Rightarrow> rect" where
  "new_Rect x y w h = \<lparr>rect_x = x, rect_y = y, rect_width = w, rect_height = h\<rparr>"

definition new_Rect0 :: rect where
  "new_Rect0 = new_Rect (Num 0) (Num 0) (Num 0) (Num 0)"

text \<open>Modelled from the spec: \<^verbatim>\<open>Rect.prototype.unite\<close> is not in the sources.  The spec names it
  the union of two rectangles: the rectangle from the smaller left and top edges to the
  larger right and bottom edges.\<close>

definition unite :: "rect \<Rightarrow> rect \<Rightarrow> rect" where
  "unite r1 r2 =
     (let x = jmin (rect_x r1) (rect_x r2);
          y = jmin (rect_y r1) (rect_y r2);
          w = jsub (jmax (jadd (rect_x r1) (rect_width r1)) (jadd (rect_x r2) (rect_width r2))) x;
          h = jsub (jmax (jadd (rect_y r1) (rect_height r1)) (jadd (rect_y r2) (rect_height r2))) y
      in new_Rect x y w h)"

subsection \<open>The module object \<^verbatim>\<open>vg\<close> (line 185) and \<^verbatim>\<open>vg.bounds\<close> (lines 195-227)\<close>

text \<open>\<^verbatim>\<open>var vg = {}\<close>, and then every property the file assigns to it, in the order of the
  file.  A property that is not in the list reads as \<^verbatim>\<open>undefined\<close>.\<close>

definition vg_properties :: "string list" where
  "vg_properties =
     [''HORIZONTAL'', ''VERTICAL'', ''EAST'', ''WEST'', ''NORTH'', ''SOUTH'',
      ''bounds'', ''makeCenteredRect'', ''makePoint'', ''makeRect'', ''merge'', ''combinePaths'',
      ''shapePoints'', ''toPoints'', ''colorize'', ''translate'', ''scale'', ''rotate'', ''skew'',
      ''copy'', ''fit'', ''fitTo'', ''_mirrorPoints'', ''_mirrorPath'', ''_mirrorGroup'', ''_mirror'',
      ''mirror'', ''pathLength'', ''resampleByLength'', ''resampleByAmount'', ''_wigglePoints'',
      ''wigglePoints'', ''_wiggleContours'', ''wiggleContours'', ''_wigglePaths'', ''wigglePaths'',
      ''scatterPoints'', ''connectPoints'', ''align'', ''snap'', ''deletePoints'', ''deletePaths'',
      ''delete'', ''pointOnPath'', ''_x'', ''_y'', ''_angleToPoint'', ''_distanceToPoint'',
      ''shapeSort'', ''group'', ''ungroup'', ''centerPoint'', ''link'', ''_compoundToPoints'',
      ''compound'']"

text \<open>\<^verbatim>\<open>new vg.Rect(x, y, w, h)\<close>: the constructor is looked up on the module object \<^verbatim>\<open>vg\<close>, not
  on the required class \<^verbatim>\<open>Rect\<close>; \<^verbatim>\<open>new undefined(...)\<close> throws a \<^verbatim>\<open>TypeError\<close>.\<close>

definition new_vg_Rect :: "jsnum \<Rightarrow> jsnum \<Rightarrow> jsnum \<Rightarrow> jsnum \<Rightarrow> error + rect" where
  "new_vg_Rect x y w h =
     (if ''Rect'' \<in> set vg_properties then Inr (new_Rect x y w h) else Inl TypeError)"

text \<open>\<^verbatim>\<open>vg.bounds\<close>.  The classes \<^verbatim>\<open>Path\<close> and \<^verbatim>\<open>Group\<close> are not in the sources: \<open>obj_bounds o\<close> is
  what the method \<^verbatim>\<open>o.bounds()\<close> returns, and \<open>None\<close> when the object has no such method
  (the test \<^verbatim>\<open>typeof o.bounds === 'function'\<close>); plain objects and arrays have none.
  \<open>vg_bounds_loop\<close> is the \<^verbatim>\<open>for\<close> loop of the array branch after its first round, \<open>r\<close> the
  rectangle accumulated so far.\<close>

fun vg_bounds :: "(jsval \<Rightarrow> rect option) \<Rightarrow> jsval \<Rightarrow> error + rect"
and vg_bounds_loop :: "(jsval \<Rightarrow> rect option) \<Rightarrow> rect \<Rightarrow> jsval list \<Rightarrow> error + rect"
where
  "vg_bounds obj_bounds Undefined = Inr new_Rect0"
| "vg_bounds obj_bounds Null = Inr new_Rect0"
| "vg_bounds obj_bounds (PathV p) =
     (case obj_bounds (PathV p) of Some r \<Rightarrow> Inr r | None \<Rightarrow> Inr new_Rect0)"
| "vg_bounds obj_bounds (GroupV ss) =
     (case obj_bounds (GroupV ss) of Some r \<Rightarrow> Inr r | None \<Rightarrow> Inr new_Rect0)"
| "vg_bounds obj_bounds (PointV x y) =
     (if x \<noteq> Undef \<and> y \<noteq> Undef then Inr (new_Rect x y (Num 0) (Num 0))
      else Inr new_Rect0)"
| "vg_bounds obj_bounds (RectV r) =
     (if rect_x r \<noteq> Undef \<and> rect_y r \<noteq> Undef then
        (if rect_width r \<noteq> Undef \<and> rect_height r \<noteq> Undef
         then Inr (new_Rect (rect_x r) (rect_y r) (rect_width r) (rect_height r))
         else Inr (new_Rect (rect_x r) (rect_y r) (Num 0) (Num 0)))
      else Inr new_Rect0)"
| "vg_bounds obj_bounds (ColorV c) = new_vg_Rect (Num 0) (Num 0) (Num 30) (Num 30)"
| "vg_bounds obj_bounds (ArrayV []) = Inr new_Rect0"
| "vg_bounds obj_bounds (ArrayV (s # ss)) =
     (case s of
        Undefined \<Rightarrow> Inl TypeError
      | Null \<Rightarrow> Inl TypeError
      | ColorV c \<Rightarrow> Inr (new_Rect (Num 0) (Num 0) (Num (real (length (s # ss)) * 30)) (Num 30))
      | _ \<Rightarrow>
          (case vg_bounds obj_bounds s of
             Inl e \<Rightarrow> Inl e
           | Inr r \<Rightarrow> vg_bounds_loop obj_bounds r ss))"
| "vg_bounds_loop obj_bounds r [] = Inr r"
| "vg_bounds_loop obj_bounds r (s # ss) =
     (case vg_bounds obj_bounds s of
        Inl e \<Rightarrow> Inl e
      | Inr b \<Rightarrow> vg_bounds_loop obj_bounds (unite r b) ss)"

text \<open>A colour object: \<^verbatim>\<open>o.r\<close>, \<^verbatim>\<open>o.g\<close> and \<^verbatim>\<open>o.b\<close> are defined.\<close>

fun is_color :: "jsval \<Rightarrow> bool" where
  "is_color (ColorV c) = True"
| "is_color _ = False"

text \<open>The array of the points with the given finite coordinates.\<close>

definition point_array :: "(real \<times> real) list \<Rightarrow> jsval" where
  "point_array ps = ArrayV (map (\<lambda>(x, y). PointV (Num x) (Num y)) ps)"

text \<open>The rectangle with finite fields.\<close>

definition Rect :: "real \<Rightarrow> real \<Rightarrow> real \<Rightarrow> real \<Rightarrow> rect" where
  "Rect x y w h = new_Rect (Num x) (Num y) (Num w) (Num h)"

text \<open>The rectangle spanned by a non-empty set of points: from the least to the greatest
  coordinate on each axis.\<close>

definition enclosing_rect :: "(real \<times> real) list \<Rightarrow> rect" where
  "enclosing_rect ps =
     Rect (Min (fst ` set ps)) (Min (snd ` set ps))
          (Max (fst ` set ps) - Min (fst ` set ps)) (Max (snd ` set ps) - Min (snd ` set ps))"

subsection \<open>The methods of \<^verbatim>\<open>Path\<close> that append a command\<close>

text \<open>Modelled from the spec: \<^verbatim>\<open>Path.prototype.moveTo\<close>, \<^verbatim>\<open>lineTo\<close>, \<^verbatim>\<open>curveTo\<close> and \<^verbatim>\<open>close\<close> are not
  in the sources.  By the spec a command is a tag with an endpoint \<open>(x, y)\<close>, except
  \<^verbatim>\<open>CLOSE\<close>, and \<^verbatim>\<open>CURVETO\<close> carries two control points; each method appends one such
  command, and \<^verbatim>\<open>new Path([], fill, stroke, strokeWidth)\<close> starts from no commands.\<close>

definition cmd_moveTo :: "jsnum \<Rightarrow> jsnum \<Rightarrow> command" where
  "cmd_moveTo x y =
     \<lparr>ctype = MOVETO, cmd_x = x, cmd_y = y,
      cmd_x1 = Undef, cmd_y1 = Undef, cmd_x2 = Undef, cmd_y2 = Undef\<rparr>"

definition cmd_lineTo :: "jsnum \<Rightarrow> jsnum \<Rightarrow> command" where
  "cmd_lineTo x y =
     \<lparr>ctype = LINETO, cmd_x = x, cmd_y = y,
      cmd_x1 = Undef, cmd_y1 = Undef, cmd_x2 = Undef, cmd_y2 = Undef\<rparr>"

definition cmd_curveTo :: "jsnum \<Rightarrow> jsnum \<Rightarrow> jsnum \<Rightarrow> jsnum \<Rightarrow> jsnum \<Rightarrow> jsnum \<Rightarrow> command" where
  "cmd_curveTo x1 y1 x2 y2 x y =
     \<lparr>ctype = CURVETO, cmd_x = x, cmd_y = y,
      cmd_x1 = x1, cmd_y1 = y1, cmd_x2 = x2, cmd_y2 = y2\<rparr>"

definition cmd_close :: command where
  "cmd_close =
     \<lparr>ctype = CLOSE, cmd_x = Undef, cmd_y = Undef,
      cmd_x1 = Undef, cmd_y1 = Undef, cmd_x2 = Undef, cmd_y2 = Undef\<rparr>"

subsection \<open>\<^verbatim>\<open>vg.translate\<close>, \<^verbatim>\<open>vg.scale\<close>, \<^verbatim>\<open>vg.rotate\<close>, \<^verbatim>\<open>vg.skew\<close> (lines 292-318)\<close>

text \<open>Each of the four reads a method of the shape (\<^verbatim>\<open>if (shape.translate)\<close>) before anything
  else.  \<open>own\<close> is that method when the shape has one, \<open>generic\<close> is the fallback
  \<^verbatim>\<open>Transformable.translate.apply(shape, [...])\<close>; neither is in the sources.\<close>

definition vg_translate ::
  "(jsval \<Rightarrow> ('p \<Rightarrow> result) option) \<Rightarrow> (jsval \<Rightarrow> 'p \<Rightarrow> result) \<Rightarrow> jsval \<Rightarrow> 'p \<Rightarrow> result" where
  "vg_translate own generic shape position =
     (if shape = Undefined \<or> shape = Null then Inl TypeError
      else case own shape of
             Some method \<Rightarrow> method position
           | None \<Rightarrow> generic shape position)"

definition vg_scale ::
  "(jsval \<Rightarrow> ('s \<Rightarrow> 'o \<Rightarrow> result) option) \<Rightarrow> (jsval \<Rightarrow> 's \<Rightarrow> 'o \<Rightarrow> result)
     \<Rightarrow> jsval \<Rightarrow> 's \<Rightarrow> 'o \<Rightarrow> result" where
  "vg_scale own generic shape scale origin =
     (if shape = Undefined \<or> shape = Null then Inl TypeError
      else case own shape of
             Some method \<Rightarrow> method scale origin
           | None \<Rightarrow> generic shape scale origin)"

definition vg_rotate ::
  "(jsval \<Rightarrow> ('a \<Rightarrow> 'o \<Rightarrow> result) option) \<Rightarrow> (jsval \<Rightarrow> 'a \<Rightarrow> 'o \<Rightarrow> result)
     \<Rightarrow> jsval \<Rightarrow> 'a \<Rightarrow> 'o \<Rightarrow> result" where
  "vg_rotate own generic shape angle origin =
     (if shape = Undefined \<or> shape = Null then Inl TypeError
      else case own shape of
             Some method \<Rightarrow> method angle origin
           | None \<Rightarrow> generic shape angle origin)"

definition vg_skew ::
  "(jsval \<Rightarrow> ('s \<Rightarrow> 'o \<Rightarrow> result) option) \<Rightarrow> (jsval \<Rightarrow> 's \<Rightarrow> 'o \<Rightarrow> result)
     \<Rightarrow> jsval \<Rightarrow> 's \<Rightarrow> 'o \<Rightarrow> result" where
  "vg_skew own generic shape skew origin =
     (if shape = Undefined \<or> shape = Null then Inl TypeError
      else case own shape of
             Some method \<Rightarrow> method skew origin
           | None \<Rightarrow> generic shape skew origin)"

subsection \<open>\<^verbatim>\<open>vg.fit\<close> (lines 355-389) and \<^verbatim>\<open>vg.align\<close> (lines 711-740)\<close>

text \<open>The class \<^verbatim>\<open>Transform\<close> (\<^verbatim>\<open>../objects/transform\<close>) is not in the sources: its constructor and
  the methods the module calls are the fields of a parameter.\<close>

record 't Transform_class =
  new_Transform :: 't
  t_translate :: "'t \<Rightarrow> jsnum \<Rightarrow> jsnum \<Rightarrow> 't"
  t_scale :: "'t \<Rightarrow> jsnum \<Rightarrow> jsnum \<Rightarrow> 't"
  transformShape :: "'t \<Rightarrow> jsval \<Rightarrow> result"

text \<open>\<^verbatim>\<open>Number.MAX_VALUE\<close>, the largest finite double.\<close>

definition MAX_VALUE :: real where
  "MAX_VALUE = (2 ^ 53 - 1) * 2 ^ 971"

text \<open>\<^verbatim>\<open>bw = (bw > 0.000000000001) ? bw : 0\<close>; the comparison is false on \<open>NaN\<close> and
  \<^verbatim>\<open>undefined\<close>.\<close>

definition clamp_small :: "jsnum \<Rightarrow> real" where
  "clamp_small b = (case b of Num v \<Rightarrow> if v > 1 / 10 ^ 12 then v else 0 | _ \<Rightarrow> 0)"

text \<open>The scale factors \<open>(sx, sy)\<close> that \<^verbatim>\<open>vg.fit\<close> passes to \<^verbatim>\<open>t.scale\<close>, from the clamped
  width and height of the bounds.\<close>

definition fit_scale :: "real \<Rightarrow> real \<Rightarrow> real \<Rightarrow> real \<Rightarrow> bool \<Rightarrow> real \<times> real" where
  "fit_scale bw bh width height stretch =
     (if \<not> stretch then
        (let sx = (if bw > 0 then width / bw else MAX_VALUE);
             sy = (if bh > 0 then height / bh else MAX_VALUE);
             s = min sx sy
         in (s, s))
      else
        (let sx = (if bw > 0 then width / bw else 1);
             sy = (if bh > 0 then height / bh else 1)
         in (sx, sy)))"

text \<open>The transform \<^verbatim>\<open>vg.fit\<close> builds: \<^verbatim>\<open>translate(position)\<close>, \<^verbatim>\<open>scale(sx, sy)\<close>,
  \<^verbatim>\<open>translate(-bw / 2 - bx, -bh / 2 - by)\<close>, in this order of calls.\<close>

definition fit_transform ::
  "'t Transform_class \<Rightarrow> rect \<Rightarrow> real \<times> real \<Rightarrow> real \<Rightarrow> real \<Rightarrow> bool \<Rightarrow> 't" where
  "fit_transform T bounds position width height stretch =
     (let bx = rect_x bounds;
          by = rect_y bounds;
          bw = clamp_small (rect_width bounds);
          bh = clamp_small (rect_height bounds);
          t0 = new_Transform T;
          t1 = t_translate T t0 (Num (fst position)) (Num (snd position));
          (sx, sy) = fit_scale bw bh width height stretch;
          t2 = t_scale T t1 (Num sx) (Num sy)
      in t_translate T t2 (jsub (Num (- bw / 2)) bx) (jsub (Num (- bh / 2)) by))"

text \<open>\<open>stretch\<close> is \<open>None\<close> when the argument is \<^verbatim>\<open>undefined\<close>.\<close>

definition vg_fit ::
  "'t Transform_class \<Rightarrow> (jsval \<Rightarrow> rect option) \<Rightarrow> jsval \<Rightarrow> real \<times> real \<Rightarrow> real \<Rightarrow> real
     \<Rightarrow> bool option \<Rightarrow> result" where
  "vg_fit T obj_bounds shape position width height stretch =
     (if shape = Undefined \<or> shape = Null then Inr Undefined
      else
        (let stretch' = (case stretch of Some s \<Rightarrow> s | None \<Rightarrow> False) in
         case vg_bounds obj_bounds shape of
           Inl e \<Rightarrow> Inl e
         | Inr bounds \<Rightarrow>
             transformShape T (fit_transform T bounds position width height stretch') shape))"

definition vg_align ::
  "'t Transform_class \<Rightarrow> (jsval \<Rightarrow> rect option) \<Rightarrow> jsval \<Rightarrow> real \<times> real \<Rightarrow> string \<Rightarrow> string
     \<Rightarrow> result" where
  "vg_align T obj_bounds shape position hAlign vAlign =
     (if shape = Undefined \<or> shape = Null then Inr Undefined
      else
        (let x = Num (fst position); y = Num (snd position) in
         case vg_bounds obj_bounds shape of
           Inl e \<Rightarrow> Inl e
         | Inr bounds \<Rightarrow>
             (let dx = (if hAlign = ''left'' then jsub x (rect_x bounds)
                        else if hAlign = ''right''
                          then jsub (jsub x (rect_x bounds)) (rect_width bounds)
                        else if hAlign = ''center''
                          then jsub (jsub x (rect_x bounds)) (jmul (rect_width bounds) (Num (1 / 2)))
                        else Num 0);
                  dy = (if vAlign = ''top'' then jsub y (rect_y bounds)
                        else if vAlign = ''bottom''
                          then jsub (jsub y (rect_y bounds)) (rect_height bounds)
                        else if vAlign = ''middle''
                          then jsub (jsub y (rect_y bounds)) (jmul (rect_height bounds) (Num (1 / 2)))
                        else Num 0)
              in transformShape T (t_translate T (new_Transform T) dx dy) shape)))"

subsection \<open>\<^verbatim>\<open>vg.mirror\<close> (lines 410-495)\<close>

text \<open>The helpers \<^verbatim>\<open>geo.distance\<close>, \<^verbatim>\<open>geo.angle\<close>, \<^verbatim>\<open>geo.coordinates\<close> and \<^verbatim>\<open>math.radians\<close> are not in
  the sources: they are the fields of a parameter.\<close>

record geo_module =
  geo_distance :: "jsnum \<Rightarrow> jsnum \<Rightarrow> jsnum \<Rightarrow> jsnum \<Rightarrow> jsnum"
  geo_angle :: "jsnum \<Rightarrow> jsnum \<Rightarrow> jsnum \<Rightarrow> jsnum \<Rightarrow> jsnum"
  geo_coordinates :: "jsnum \<Rightarrow> jsnum \<Rightarrow> jsnum \<Rightarrow> jsnum \<Rightarrow> jsnum \<times> jsnum"
  math_radians :: "jsnum \<Rightarrow> jsnum"

text \<open>\<^verbatim>\<open>Math.cos\<close>.\<close>

definition Math_cos :: "jsnum \<Rightarrow> jsnum" where
  "Math_cos a = (case a of Num v \<Rightarrow> Num (cos v) | _ \<Rightarrow> NaN)"

text \<open>The closure \<^verbatim>\<open>fn\<close> of \<^verbatim>\<open>vg.mirror\<close>.\<close>

definition mirror_fn :: "geo_module \<Rightarrow> real \<times> real \<Rightarrow> real \<Rightarrow> jsnum \<Rightarrow> jsnum \<Rightarrow> jsnum \<times> jsnum" where
  "mirror_fn G origin angle x y =
     (let ox = Num (fst origin);
          oy = Num (snd origin);
          d = geo_distance G x y ox oy;
          a = geo_angle G x y ox oy;
          pt = geo_coordinates G ox oy (Num (180 + angle))
                 (jmul d (Math_cos (math_radians G (jsub a (Num angle)))));
          d' = geo_distance G x y (fst pt) (snd pt);
          a' = geo_angle G x y (fst pt) (snd pt)
      in geo_coordinates G x y a' (jmul d' (Num 2)))"

fun mirrorPoints :: "(jsnum \<Rightarrow> jsnum \<Rightarrow> jsnum \<times> jsnum) \<Rightarrow> jsval list \<Rightarrow> error + jsval list" where
  "mirrorPoints fn [] = Inr []"
| "mirrorPoints fn (pt # pts) =
     (case prop_x pt of
        Inl e \<Rightarrow> Inl e
      | Inr x \<Rightarrow>
     (case prop_y pt of
        Inl e \<Rightarrow> Inl e
      | Inr y \<Rightarrow>
     (case mirrorPoints fn pts of
        Inl e \<Rightarrow> Inl e
      | Inr out \<Rightarrow> Inr (PointV (fst (fn x y)) (snd (fn x y)) # out))))"

fun mirrorPath_commands ::
  "(jsnum \<Rightarrow> jsnum \<Rightarrow> jsnum \<times> jsnum) \<Rightarrow> command list \<Rightarrow> error + command list" where
  "mirrorPath_commands fn [] = Inr []"
| "mirrorPath_commands fn (cmd # cs) =
     (let pt = fn (cmd_x cmd) (cmd_y cmd);
          ctrl1 = fn (cmd_x1 cmd) (cmd_y1 cmd);
          ctrl2 = fn (cmd_x2 cmd) (cmd_y2 cmd)
      in case (if ctype cmd = MOVETO then Inr (cmd_moveTo (fst pt) (snd pt))
               else if ctype cmd = LINETO then Inr (cmd_lineTo (fst pt) (snd pt))
               else if ctype cmd = CURVETO
                 then Inr (cmd_curveTo (fst ctrl1) (snd ctrl1) (fst ctrl2) (snd ctrl2) (fst pt) (snd pt))
               else if ctype cmd = CLOSE then Inr cmd_close
               else Inl (Error ''Unknown command [object Object]'')) of
           Inl e \<Rightarrow> Inl e
         | Inr new \<Rightarrow>
             (case mirrorPath_commands fn cs of
                Inl e \<Rightarrow> Inl e
              | Inr out \<Rightarrow> Inr (new # out)))"

text \<open>\<^verbatim>\<open>vg._mirror\<close> with \<^verbatim>\<open>vg._mirrorGroup\<close> and \<^verbatim>\<open>vg._mirrorPath\<close>.  A value that is neither a
  point array nor a group goes to \<^verbatim>\<open>_mirrorPath\<close>, which reads \<^verbatim>\<open>path.commands.length\<close>.\<close>

fun mirror_shape :: "(jsnum \<Rightarrow> jsnum \<Rightarrow> jsnum \<times> jsnum) \<Rightarrow> jsval \<Rightarrow> result"
and mirror_each :: "(jsnum \<Rightarrow> jsnum \<Rightarrow> jsnum \<times> jsnum) \<Rightarrow> jsval list \<Rightarrow> error + jsval list"
where
  "mirror_shape fn Undefined = Inl TypeError"
| "mirror_shape fn Null = Inl TypeError"
| "mirror_shape fn (PathV p) =
     (case mirrorPath_commands fn (commands p) of
        Inl e \<Rightarrow> Inl e
      | Inr cs \<Rightarrow> Inr (PathV (p\<lparr>commands := cs\<rparr>)))"
| "mirror_shape fn (GroupV ss) =
     (case mirror_each fn ss of
        Inl e \<Rightarrow> Inl e
      | Inr ms \<Rightarrow> Inr (GroupV ms))"
| "mirror_shape fn (ArrayV []) = Inl TypeError"
| "mirror_shape fn (ArrayV (s # ss)) =
     (case has_xy s of
        Inl e \<Rightarrow> Inl e
      | Inr True \<Rightarrow>
          (case mirrorPoints fn (s # ss) of
             Inl e \<Rightarrow> Inl e
           | Inr ms \<Rightarrow> Inr (ArrayV ms))
      | Inr False \<Rightarrow> Inl TypeError)"
| "mirror_shape fn (PointV x y) = Inl TypeError"
| "mirror_shape fn (RectV r) = Inl TypeError"
| "mirror_shape fn (ColorV c) = Inl TypeError"
| "mirror_each fn [] = Inr []"
| "mirror_each fn (s # ss) =
     (case mirror_shape fn s of
        Inl e \<Rightarrow> Inl e
      | Inr m \<Rightarrow>
          (case mirror_each fn ss of
             Inl e \<Rightarrow> Inl e
           | Inr ms \<Rightarrow> Inr (m # ms)))"

text \<open>\<^verbatim>\<open>Array.isArray(shape) && shape.length > 0 && shape[0].x !== undefined &&
  shape[0].y !== undefined\<close>.\<close>

definition is_point_array :: "jsval \<Rightarrow> error + bool" where
  "is_point_array shape = (case shape of ArrayV (s # ss) \<Rightarrow> has_xy s | _ \<Rightarrow> Inr False)"

text \<open>\<^verbatim>\<open>vg.mirror\<close>.  \<open>angle\<close> and \<open>origin\<close> are \<open>None\<close> when the argument is \<^verbatim>\<open>undefined\<close>:
  the angle is then 90 and the origin \<^verbatim>\<open>new Point()\<close>, the point \<open>(0, 0)\<close>.\<close>

definition vg_mirror ::
  "geo_module \<Rightarrow> jsval \<Rightarrow> real option \<Rightarrow> (real \<times> real) option \<Rightarrow> bool \<Rightarrow> result" where
  "vg_mirror G shape angle origin keepOriginal =
     (if shape = Undefined \<or> shape = Null then Inr Undefined
      else
        (let origin' = (case origin of Some p \<Rightarrow> p | None \<Rightarrow> (0, 0));
             angle' = (case angle of Some a \<Rightarrow> a | None \<Rightarrow> 90)
         in case mirror_shape (mirror_fn G origin' angle') shape of
              Inl e \<Rightarrow> Inl e
            | Inr newShape \<Rightarrow>
                if keepOriginal then
                  (case is_point_array shape of
                     Inl e \<Rightarrow> Inl e
                   | Inr True \<Rightarrow>
                       (case (shape, newShape) of
                          (ArrayV ps, ArrayV ms) \<Rightarrow> Inr (ArrayV (ps @ ms))
                        | _ \<Rightarrow> Inl TypeError)
                   | Inr False \<Rightarrow> Inr (GroupV [shape, newShape]))
                else Inr newShape))"

subsection \<open>\<^verbatim>\<open>vg.snap\<close> (lines 743-802)\<close>

text \<open>Modelled from the spec: \<^verbatim>\<open>math.snap\<close> is not in the sources.  By the spec it rounds the
  value to the nearest multiple of \<open>distance\<close> and blends by \<open>strength\<close>: the linear
  interpolation between the value (strength 0) and the snapped value (strength 1).
  \<^verbatim>\<open>Math.round\<close> rounds halves up, as \<open>round\<close> does.  With distance 0 the quotient is
  infinite or \<open>NaN\<close> and its product with 0 is \<open>NaN\<close>.\<close>

definition math_snap :: "jsnum \<Rightarrow> real \<Rightarrow> real \<Rightarrow> jsnum" where
  "math_snap v distance strength =
     (case v of
        Num u \<Rightarrow>
          if distance = 0 then NaN
          else Num (u * (1 - strength) + strength * real_of_int (round (u / distance)) * distance)
      | _ \<Rightarrow> NaN)"

text \<open>\<^verbatim>\<open>math.snap(v + center.x, distance, strength) - center.x\<close>, with \<^verbatim>\<open>math.snap\<close> the parameter
  \<open>msnap\<close>.\<close>

definition snap_coord ::
  "(jsnum \<Rightarrow> real \<Rightarrow> real \<Rightarrow> jsnum) \<Rightarrow> real \<Rightarrow> real \<Rightarrow> real \<Rightarrow> jsnum \<Rightarrow> jsnum" where
  "snap_coord msnap distance strength c v = jsub (msnap (jadd v (Num c)) distance strength) (Num c)"

fun snap_commands ::
  "(jsnum \<Rightarrow> real \<Rightarrow> real \<Rightarrow> jsnum) \<Rightarrow> real \<Rightarrow> real \<Rightarrow> real \<times> real \<Rightarrow> command list
     \<Rightarrow> error + command list" where
  "snap_commands msnap distance strength center [] = Inr []"
| "snap_commands msnap distance strength center (cmd # cs) =
     (case (if ctype cmd = MOVETO \<or> ctype cmd = LINETO \<or> ctype cmd = CURVETO then
              (let x = snap_coord msnap distance strength (fst center) (cmd_x cmd);
                   y = snap_coord msnap distance strength (snd center) (cmd_y cmd)
               in if ctype cmd = MOVETO then Inr (cmd_moveTo x y)
                  else if ctype cmd = LINETO then Inr (cmd_lineTo x y)
                  else
                    (let x1 = snap_coord msnap distance strength (fst center) (cmd_x1 cmd);
                         y1 = snap_coord msnap distance strength (snd center) (cmd_y1 cmd);
                         x2 = snap_coord msnap distance strength (fst center) (cmd_x2 cmd);
                         y2 = snap_coord msnap distance strength (snd center) (cmd_y2 cmd)
                     in Inr (cmd_curveTo x1 y1 x2 y2 x y)))
            else if ctype cmd = CLOSE then Inr cmd_close
            else Inl (Error ''Invalid path command [object Object]'')) of
        Inl e \<Rightarrow> Inl e
      | Inr new \<Rightarrow>
          (case snap_commands msnap distance strength center cs of
             Inl e \<Rightarrow> Inl e
           | Inr out \<Rightarrow> Inr (new # out)))"

fun snap_points ::
  "(jsnum \<Rightarrow> real \<Rightarrow> real \<Rightarrow> jsnum) \<Rightarrow> real \<Rightarrow> real \<Rightarrow> real \<times> real \<Rightarrow> jsval list
     \<Rightarrow> error + jsval list" where
  "snap_points msnap distance strength center [] = Inr []"
| "snap_points msnap distance strength center (point # points) =
     (case prop_x point of
        Inl e \<Rightarrow> Inl e
      | Inr px \<Rightarrow>
     (case prop_y point of
        Inl e \<Rightarrow> Inl e
      | Inr py \<Rightarrow>
     (case snap_points msnap distance strength center points of
        Inl e \<Rightarrow> Inl e
      | Inr out \<Rightarrow>
          Inr (PointV (snap_coord msnap distance strength (fst center) px)
                      (snap_coord msnap distance strength (snd center) py) # out))))"

text \<open>The body of \<^verbatim>\<open>vg.snap\<close> once \<open>strength\<close> and \<open>center\<close> have their defaults; the recursive
  calls pass both on.\<close>

fun snap_shape ::
  "(jsnum \<Rightarrow> real \<Rightarrow> real \<Rightarrow> jsnum) \<Rightarrow> real \<Rightarrow> real \<Rightarrow> real \<times> real \<Rightarrow> jsval \<Rightarrow> result"
and snap_each ::
  "(jsnum \<Rightarrow> real \<Rightarrow> real \<Rightarrow> jsnum) \<Rightarrow> real \<Rightarrow> real \<Rightarrow> real \<times> real \<Rightarrow> jsval list
     \<Rightarrow> error + jsval list"
where
  "snap_shape msnap distance strength center Undefined = Inr Undefined"
| "snap_shape msnap distance strength center Null = Inr Undefined"
| "snap_shape msnap distance strength center (PathV p) =
     (case snap_commands msnap distance strength center (commands p) of
        Inl e \<Rightarrow> Inl e
      | Inr cs \<Rightarrow> Inr (PathV (p\<lparr>commands := cs\<rparr>)))"
| "snap_shape msnap distance strength center (GroupV ss) =
     (case snap_each msnap distance strength center ss of
        Inl e \<Rightarrow> Inl e
      | Inr out \<Rightarrow> Inr (GroupV out))"
| "snap_shape msnap distance strength center (ArrayV []) = Inr (ArrayV [])"
| "snap_shape msnap distance strength center (ArrayV (s # ss)) =
     (case has_xy s of
        Inl e \<Rightarrow> Inl e
      | Inr True \<Rightarrow>
          (case snap_points msnap distance strength center (s # ss) of
             Inl e \<Rightarrow> Inl e
           | Inr out \<Rightarrow> Inr (ArrayV out))
      | Inr False \<Rightarrow>
          (case snap_each msnap distance strength center (s # ss) of
             Inl e \<Rightarrow> Inl e
           | Inr out \<Rightarrow> Inr (ArrayV out)))"
| "snap_shape msnap distance strength center (PointV x y) = Inl RangeError"
| "snap_shape msnap distance strength center (RectV r) = Inl RangeError"
| "snap_shape msnap distance strength center (ColorV c) = Inl RangeError"
| "snap_each msnap distance strength center [] = Inr []"
| "snap_each msnap distance strength center (s # ss) =
     (case snap_shape msnap distance strength center s of
        Inl e \<Rightarrow> Inl e
      | Inr d \<Rightarrow>
          (case snap_each msnap distance strength center ss of
             Inl e \<Rightarrow> Inl e
           | Inr ds \<Rightarrow> Inr (d # ds)))"

text \<open>\<^verbatim>\<open>vg.snap\<close>.  \<open>strength\<close> and \<open>center\<close> are \<open>None\<close> when the argument is \<^verbatim>\<open>undefined\<close>: the
  strength is then 1 and the centre \<^verbatim>\<open>Point.ZERO\<close>.\<close>

definition vg_snap ::
  "(jsnum \<Rightarrow> real \<Rightarrow> real \<Rightarrow> jsnum) \<Rightarrow> jsval \<Rightarrow> real \<Rightarrow> real option \<Rightarrow> (real \<times> real) option
     \<Rightarrow> result" where
  "vg_snap msnap shape distance strength center =
     snap_shape msnap distance
       (case strength of Some s \<Rightarrow> s | None \<Rightarrow> 1)
       (case center of Some c \<Rightarrow> c | None \<Rightarrow> (0, 0))
       shape"

subsection \<open>\<^verbatim>\<open>vg.wigglePoints\<close>, \<^verbatim>\<open>vg.wiggleContours\<close>, \<^verbatim>\<open>vg.wigglePaths\<close> (lines 515-643)\<close>

text \<open>\<^verbatim>\<open>random.generator(seed)\<close> (\<^verbatim>\<open>../util/random\<close>) is not in the sources.  It returns a closure
  \<^verbatim>\<open>rand\<close> with a hidden state: \<open>generator\<close> gives the state for a seed, and \<open>rand\<close> is one call
  \<^verbatim>\<open>rand(0, 1)\<close>, returning the number drawn and the next state.\<close>

record 'g random_module =
  generator :: "real \<Rightarrow> 'g"
  rand :: "'g \<Rightarrow> real \<times> 'g"

text \<open>The offsets \<^verbatim>\<open>dx = (rand(0, 1) - 0.5) * offset.x * 2\<close> and
  \<^verbatim>\<open>dy = (rand(0, 1) - 0.5) * offset.y * 2\<close>.\<close>

definition jitter :: "real \<Rightarrow> real \<Rightarrow> real" where
  "jitter r offsetAxis = (r - 1 / 2) * offsetAxis * 2"



text \<open>\<^verbatim>\<open>seed = seed !== undefined ? seed : Math.random()\<close>; \<open>random_value\<close> is the number
  \<^verbatim>\<open>Math.random()\<close> returns when it is called.\<close>

definition seed_or_random :: "real option \<Rightarrow> real \<Rightarrow> real" where
  "seed_or_random seed random_value = (case seed of Some s \<Rightarrow> s | None \<Rightarrow> random_value)"

fun wigglePoints_commands ::
  "'g random_module \<Rightarrow> real \<times> real \<Rightarrow> 'g \<Rightarrow> command list \<Rightarrow> command list \<times> 'g" where
  "wigglePoints_commands R offset g [] = ([], g)"
| "wigglePoints_commands R offset g (cmd # cs) =
     (let (r1, g1) = rand R g;
          dx = jitter r1 (fst offset);
          (r2, g2) = rand R g1;
          dy = jitter r2 (snd offset);
          new = (if ctype cmd = MOVETO
                   then [cmd_moveTo (jadd (cmd_x cmd) (Num dx)) (jadd (cmd_y cmd) (Num dy))]
                 else if ctype cmd = LINETO
                   then [cmd_lineTo (jadd (cmd_x cmd) (Num dx)) (jadd (cmd_y cmd) (Num dy))]
                 else if ctype cmd = CURVETO
                   then [cmd_curveTo (cmd_x1 cmd) (cmd_y1 cmd) (cmd_x2 cmd) (cmd_y2 cmd)
                           (jadd (cmd_x cmd) (Num dx)) (jadd (cmd_y cmd) (Num dy))]
                 else if ctype cmd = CLOSE then [cmd_close]
                 else []);
          (out, g') = wigglePoints_commands R offset g2 cs
      in (new @ out, g'))"

fun wigglePoints_points ::
  "'g random_module \<Rightarrow> real \<times> real \<Rightarrow> 'g \<Rightarrow> jsval list \<Rightarrow> error + jsval list \<times> 'g" where
  "wigglePoints_points R offset g [] = Inr ([], g)"
| "wigglePoints_points R offset g (pt # pts) =
     (let (r1, g1) = rand R g;
          dx = jitter r1 (fst offset);
          (r2, g2) = rand R g1;
          dy = jitter r2 (snd offset)
      in case prop_x pt of
           Inl e \<Rightarrow> Inl e
         | Inr x \<Rightarrow>
        (case prop_y pt of
           Inl e \<Rightarrow> Inl e
         | Inr y \<Rightarrow>
        (case wigglePoints_points R offset g2 pts of
           Inl e \<Rightarrow> Inl e
         | Inr (out, g') \<Rightarrow> Inr (PointV (jadd x (Num dx)) (jadd y (Num dy)) # out, g'))))"

text \<open>\<^verbatim>\<open>vg._wigglePoints\<close>; the generator state is threaded through the recursion.\<close>

fun wigglePoints_shape ::
  "'g random_module \<Rightarrow> real \<times> real \<Rightarrow> 'g \<Rightarrow> jsval \<Rightarrow> error + jsval \<times> 'g"
and wigglePoints_each ::
  "'g random_module \<Rightarrow> real \<times> real \<Rightarrow> 'g \<Rightarrow> jsval list \<Rightarrow> error + jsval list \<times> 'g"
where
  "wigglePoints_shape R offset g Undefined = Inl TypeError"
| "wigglePoints_shape R offset g Null = Inl TypeError"
| "wigglePoints_shape R offset g (PathV p) =
     (let (cs, g') = wigglePoints_commands R offset g (commands p)
      in Inr (PathV (p\<lparr>commands := cs\<rparr>), g'))"
| "wigglePoints_shape R offset g (GroupV ss) =
     (case wigglePoints_each R offset g ss of
        Inl e \<Rightarrow> Inl e
      | Inr (out, g') \<Rightarrow> Inr (GroupV out, g'))"
| "wigglePoints_shape R offset g (ArrayV []) = Inr (ArrayV [], g)"
| "wigglePoints_shape R offset g (ArrayV (s # ss)) =
     (case has_xy s of
        Inl e \<Rightarrow> Inl e
      | Inr True \<Rightarrow>
          (case wigglePoints_points R offset g (s # ss) of
             Inl e \<Rightarrow> Inl e
           | Inr (out, g') \<Rightarrow> Inr (ArrayV out, g'))
      | Inr False \<Rightarrow>
          (case wigglePoints_each R offset g (s # ss) of
             Inl e \<Rightarrow> Inl e
           | Inr (out, g') \<Rightarrow> Inr (ArrayV out, g')))"
| "wigglePoints_shape R offset g (PointV x y) = Inl RangeError"
| "wigglePoints_shape R offset g (RectV r) = Inl RangeError"
| "wigglePoints_shape R offset g (ColorV c) = Inl RangeError"
| "wigglePoints_each R offset g [] = Inr ([], g)"
| "wigglePoints_each R offset g (s # ss) =
     (case wigglePoints_shape R offset g s of
        Inl e \<Rightarrow> Inl e
      | Inr (w, g1) \<Rightarrow>
          (case wigglePoints_each R offset g1 ss of
             Inl e \<Rightarrow> Inl e
           | Inr (ws, g') \<Rightarrow> Inr (w # ws, g')))"


text \<open>\<^verbatim>\<open>vg._wiggleContours\<close>.  \<open>obj_contours shape\<close> is what the method \<^verbatim>\<open>shape.contours()\<close> returns,
  and \<open>None\<close> when the object has no such method; \<open>new_Path\<close> is the constructor
  \<^verbatim>\<open>new Path(commands)\<close>.  Neither is in the sources.  The result of
  \<^verbatim>\<open>t.transformShape\<close> on a path is read as a path: its \<^verbatim>\<open>commands\<close> are appended.\<close>

fun wiggleContours_subPaths ::
  "'g random_module \<Rightarrow> 't Transform_class \<Rightarrow> (command list \<Rightarrow> path) \<Rightarrow> real \<times> real \<Rightarrow> 'g
     \<Rightarrow> command list list \<Rightarrow> error + command list \<times> 'g" where
  "wiggleContours_subPaths R T new_Path offset g [] = Inr ([], g)"
| "wiggleContours_subPaths R T new_Path offset g (sub # subs) =
     (let (r1, g1) = rand R g;
          dx = jitter r1 (fst offset);
          (r2, g2) = rand R g1;
          dy = jitter r2 (snd offset);
          t = t_translate T (new_Transform T) (Num dx) (Num dy)
      in case transformShape T t (PathV (new_Path sub)) of
           Inl e \<Rightarrow> Inl e
         | Inr (PathV q) \<Rightarrow>
             (case wiggleContours_subPaths R T new_Path offset g2 subs of
                Inl e \<Rightarrow> Inl e
              | Inr (out, g') \<Rightarrow> Inr (commands q @ out, g'))
         | Inr _ \<Rightarrow> Inl TypeError)"

fun wiggleContours_shape ::
  "'g random_module \<Rightarrow> 't Transform_class \<Rightarrow> (jsval \<Rightarrow> command list list option)
     \<Rightarrow> (command list \<Rightarrow> path)
     \<Rightarrow> real \<times> real \<Rightarrow> 'g \<Rightarrow> jsval \<Rightarrow> error + jsval \<times> 'g"
and wiggleContours_each ::
  "'g random_module \<Rightarrow> 't Transform_class \<Rightarrow> (jsval \<Rightarrow> command list list option)
     \<Rightarrow> (command list \<Rightarrow> path)
     \<Rightarrow> real \<times> real \<Rightarrow> 'g \<Rightarrow> jsval list \<Rightarrow> error + jsval list \<times> 'g"
where
  "wiggleContours_shape R T obj_contours new_Path offset g Undefined = Inl TypeError"
| "wiggleContours_shape R T obj_contours new_Path offset g Null = Inl TypeError"
| "wiggleContours_shape R T obj_contours new_Path offset g (PathV p) =
     (case obj_contours (PathV p) of
        None \<Rightarrow> Inl TypeError
      | Some subPaths \<Rightarrow>
          (case wiggleContours_subPaths R T new_Path offset g subPaths of
             Inl e \<Rightarrow> Inl e
           | Inr (cs, g') \<Rightarrow> Inr (PathV (p\<lparr>commands := cs\<rparr>), g')))"
| "wiggleContours_shape R T obj_contours new_Path offset g (GroupV ss) =
     (case wiggleContours_each R T obj_contours new_Path offset g ss of
        Inl e \<Rightarrow> Inl e
      | Inr (out, g') \<Rightarrow> Inr (GroupV out, g'))"
| "wiggleContours_shape R T obj_contours new_Path offset g (ArrayV ss) =
     (case wiggleContours_each R T obj_contours new_Path offset g ss of
        Inl e \<Rightarrow> Inl e
      | Inr (out, g') \<Rightarrow> Inr (ArrayV out, g'))"
| "wiggleContours_shape R T obj_contours new_Path offset g (PointV x y) = Inl RangeError"
| "wiggleContours_shape R T obj_contours new_Path offset g (RectV r) = Inl RangeError"
| "wiggleContours_shape R T obj_contours new_Path offset g (ColorV c) = Inl RangeError"
| "wiggleContours_each R T obj_contours new_Path offset g [] = Inr ([], g)"
| "wiggleContours_each R T obj_contours new_Path offset g (s # ss) =
     (case wiggleContours_shape R T obj_contours new_Path offset g s of
        Inl e \<Rightarrow> Inl e
      | Inr (w, g1) \<Rightarrow>
          (case wiggleContours_each R T obj_contours new_Path offset g1 ss of
             Inl e \<Rightarrow> Inl e
           | Inr (ws, g') \<Rightarrow> Inr (w # ws, g')))"


text \<open>\<^verbatim>\<open>vg._wigglePaths\<close>: a bare path is returned as it is; in an array or a group every
  path gets one translation and every group is wiggled in turn; other elements are
  skipped.\<close>

fun wigglePaths_shape ::
  "'g random_module \<Rightarrow> 't Transform_class \<Rightarrow> real \<times> real \<Rightarrow> 'g \<Rightarrow> jsval \<Rightarrow> error + jsval \<times> 'g"
and wigglePaths_each ::
  "'g random_module \<Rightarrow> 't Transform_class \<Rightarrow> real \<times> real \<Rightarrow> 'g \<Rightarrow> jsval list
     \<Rightarrow> error + jsval list \<times> 'g"
where
  "wigglePaths_shape R T offset g Undefined = Inl TypeError"
| "wigglePaths_shape R T offset g Null = Inl TypeError"
| "wigglePaths_shape R T offset g (PathV p) = Inr (PathV p, g)"
| "wigglePaths_shape R T offset g (GroupV ss) =
     (case wigglePaths_each R T offset g ss of
        Inl e \<Rightarrow> Inl e
      | Inr (out, g') \<Rightarrow> Inr (GroupV out, g'))"
| "wigglePaths_shape R T offset g (ArrayV ss) =
     (case wigglePaths_each R T offset g ss of
        Inl e \<Rightarrow> Inl e
      | Inr (out, g') \<Rightarrow> Inr (ArrayV out, g'))"
| "wigglePaths_shape R T offset g (PointV x y) = Inr (Undefined, g)"
| "wigglePaths_shape R T offset g (RectV r) = Inr (Undefined, g)"
| "wigglePaths_shape R T offset g (ColorV c) = Inr (Undefined, g)"
| "wigglePaths_each R T offset g [] = Inr ([], g)"
| "wigglePaths_each R T offset g (subShape # ss) =
     (case subShape of
        Undefined \<Rightarrow> Inl TypeError
      | Null \<Rightarrow> Inl TypeError
      | PathV p \<Rightarrow>
          (let (r1, g1) = rand R g;
               dx = jitter r1 (fst offset);
               (r2, g2) = rand R g1;
               dy = jitter r2 (snd offset);
               t = t_translate T (new_Transform T) (Num dx) (Num dy)
           in case transformShape T t subShape of
                Inl e \<Rightarrow> Inl e
              | Inr w \<Rightarrow>
                  (case wigglePaths_each R T offset g2 ss of
                     Inl e \<Rightarrow> Inl e
                   | Inr (ws, g') \<Rightarrow> Inr (w # ws, g')))
      | GroupV gs \<Rightarrow>
          (case wigglePaths_shape R T offset g subShape of
             Inl e \<Rightarrow> Inl e
           | Inr (w, g1) \<Rightarrow>
               (case wigglePaths_each R T offset g1 ss of
                  Inl e \<Rightarrow> Inl e
                | Inr (ws, g') \<Rightarrow> Inr (w # ws, g')))
      | _ \<Rightarrow> wigglePaths_each R T offset g ss)"


subsection \<open>\<^verbatim>\<open>vg.scatterPoints\<close> (lines 645-688)\<close>

text \<open>One run of the loop \<^verbatim>\<open>while (tries > 0)\<close>: \<open>tries\<close> placement attempts, each drawing \<open>x\<close>
  and \<open>y\<close> inside the bounds and counting the contours that contain the point.  The
  result is the point pushed, or \<open>None\<close> when every attempt failed, with the state of the
  generator.  \<open>paths\<close> are the resampled contours and \<open>pointInPolygon\<close> is
  \<^verbatim>\<open>geo.pointInPolygon\<close>, which is not in the sources.\<close>

fun scatter_tries ::
  "'g random_module \<Rightarrow> ('q \<Rightarrow> jsnum \<Rightarrow> jsnum \<Rightarrow> bool) \<Rightarrow> rect \<Rightarrow> 'q list \<Rightarrow> nat \<Rightarrow> 'g
     \<Rightarrow> jsval option \<times> 'g" where
  "scatter_tries R pointInPolygon bounds paths 0 g = (None, g)"
| "scatter_tries R pointInPolygon bounds paths (Suc tries) g =
     (let (r1, g1) = rand R g;
          x = jadd (rect_x bounds) (jmul (Num r1) (rect_width bounds));
          (r2, g2) = rand R g1;
          y = jadd (rect_y bounds) (jmul (Num r2) (rect_height bounds));
          inContourCount = length (filter (\<lambda>p. pointInPolygon p x y) paths)
      in if inContourCount mod 2 \<noteq> 0 then (Some (PointV x y), g2)
         else scatter_tries R pointInPolygon bounds paths tries g2)"

text \<open>The loop \<^verbatim>\<open>for (i = 0; i < amount; i += 1)\<close>, with \<^verbatim>\<open>tries = 100\<close> in every round.\<close>

fun scatter_loop ::
  "'g random_module \<Rightarrow> ('q \<Rightarrow> jsnum \<Rightarrow> jsnum \<Rightarrow> bool) \<Rightarrow> rect \<Rightarrow> 'q list \<Rightarrow> nat \<Rightarrow> 'g
     \<Rightarrow> jsval list" where
  "scatter_loop R pointInPolygon bounds paths 0 g = []"
| "scatter_loop R pointInPolygon bounds paths (Suc n) g =
     (case scatter_tries R pointInPolygon bounds paths 100 g of
        (Some pt, g') \<Rightarrow> pt # scatter_loop R pointInPolygon bounds paths n g'
      | (None, g') \<Rightarrow> scatter_loop R pointInPolygon bounds paths n g')"

text \<open>\<^verbatim>\<open>vg.scatterPoints\<close>.  It calls \<^verbatim>\<open>shape.bounds()\<close> and \<^verbatim>\<open>shape.contours()\<close> on the shape
  itself: \<open>obj_bounds\<close> and \<open>obj_contours\<close> are these methods of the classes \<^verbatim>\<open>Path\<close> and
  \<^verbatim>\<open>Group\<close> (\<open>None\<close> when the object has no such method); arrays and plain objects have
  neither, and calling a missing method throws.  \<open>path_points\<close> is
  \<^verbatim>\<open>contourPath.points(n, {closed: true})\<close>.  \<open>amount\<close> is a count.\<close>

definition scatter_object ::
  "'g random_module \<Rightarrow> (jsval \<Rightarrow> rect option) \<Rightarrow> (jsval \<Rightarrow> command list list option)
     \<Rightarrow> (command list \<Rightarrow> path) \<Rightarrow> (path \<Rightarrow> nat \<Rightarrow> 'q) \<Rightarrow> ('q \<Rightarrow> jsnum \<Rightarrow> jsnum \<Rightarrow> bool)
     \<Rightarrow> real \<Rightarrow> jsval \<Rightarrow> nat \<Rightarrow> real option \<Rightarrow> result" where
  "scatter_object R obj_bounds obj_contours new_Path path_points pointInPolygon
       random_value shape amount seed =
     (let g = generator R (seed_or_random seed random_value) in
      case obj_bounds shape of
        None \<Rightarrow> Inl TypeError
      | Some bounds \<Rightarrow>
          (case obj_contours shape of
             None \<Rightarrow> Inl TypeError
           | Some contours \<Rightarrow>
               (let paths = map (\<lambda>c. let contourPath = new_Path c;
                                          nrKeypoints = length (commands contourPath)
                                      in path_points contourPath (nrKeypoints * 5)) contours
                in Inr (ArrayV (scatter_loop R pointInPolygon bounds paths amount g)))))"

definition vg_scatterPoints ::
  "'g random_module \<Rightarrow> (jsval \<Rightarrow> rect option) \<Rightarrow> (jsval \<Rightarrow> command list list option)
     \<Rightarrow> (command list \<Rightarrow> path) \<Rightarrow> (path \<Rightarrow> nat \<Rightarrow> 'q) \<Rightarrow> ('q \<Rightarrow> jsnum \<Rightarrow> jsnum \<Rightarrow> bool)
     \<Rightarrow> real \<Rightarrow> jsval \<Rightarrow> nat \<Rightarrow> real option \<Rightarrow> result" where
  "vg_scatterPoints R obj_bounds obj_contours new_Path path_points pointInPolygon
       random_value shape amount seed =
     (case shape of
        Undefined \<Rightarrow> Inr Undefined
      | Null \<Rightarrow> Inr Undefined
      | PathV p \<Rightarrow>
          scatter_object R obj_bounds obj_contours new_Path path_points pointInPolygon
            random_value shape amount seed
      | GroupV ss \<Rightarrow>
          scatter_object R obj_bounds obj_contours new_Path path_points pointInPolygon
            random_value shape amount seed
      | _ \<Rightarrow> Inl TypeError)"

subsection \<open>A seeded generator\<close>

text \<open>Modelled from the spec: \<^verbatim>\<open>random.generator\<close> is not in the sources.  The spec asks for a
  seeded pseudo-random generator producing values in \<open>[0, 1)\<close> from a numeric seed; this
  one is a linear congruential generator on the integer part of the seed.  It is used
  to instantiate the statements, which hold for every generator with values in
  \<open>[0, 1)\<close>.\<close>

definition lcg :: "nat random_module" where
  "lcg = \<lparr>generator = (\<lambda>seed. nat \<lfloor>seed\<rfloor> mod 233280),
          rand = (\<lambda>s. let s' = (s * 9301 + 49297) mod 233280 in (real s' / 233280, s'))\<rparr>"

text \<open>Every call of \<^verbatim>\<open>rand(0, 1)\<close> returns a number in \<open>[0, 1)\<close>.\<close>

definition unit_interval_generator :: "'g random_module \<Rightarrow> bool" where
  "unit_interval_generator R = (\<forall>g. 0 \<le> fst (rand R g) \<and> fst (rand R g) < 1)"

subsection \<open>An affine \<^verbatim>\<open>Transform\<close>\<close>

text \<open>Modelled from the spec: the class \<^verbatim>\<open>Transform\<close> is not in the sources.  By the spec it is
  an affine transform, a composition of translate and scale operations, applied to a
  shape to give a shape of the same structure with transformed coordinates.  The spec
  does not say in which order the operations of a composition act on the coordinates.
  The statements about \<^verbatim>\<open>vg.fit\<close> therefore take the order as a hypothesis on the class
  (\<open>acts_on_bounds\<close> below), and the two instances here fix it in the two possible ways:
  both keep the operations in the order of the calls; in \<open>affine_Transform\<close> the
  operation added last acts on the coordinates first (as the matrix of a drawing
  context does), in \<open>call_order_Transform\<close> the operation added first does.\<close>

datatype t_op = Translate jsnum jsnum | Scale jsnum jsnum

fun apply_op :: "t_op \<Rightarrow> jsnum \<times> jsnum \<Rightarrow> jsnum \<times> jsnum" where
  "apply_op (Translate tx ty) (x, y) = (jadd x tx, jadd y ty)"
| "apply_op (Scale sx sy) (x, y) = (jmul x sx, jmul y sy)"

definition transformPoint :: "t_op list \<Rightarrow> jsnum \<times> jsnum \<Rightarrow> jsnum \<times> jsnum" where
  "transformPoint t p = foldr apply_op t p"

definition transformCommand :: "t_op list \<Rightarrow> command \<Rightarrow> command" where
  "transformCommand t cmd =
     (let pt = transformPoint t (cmd_x cmd, cmd_y cmd);
          ctrl1 = transformPoint t (cmd_x1 cmd, cmd_y1 cmd);
          ctrl2 = transformPoint t (cmd_x2 cmd, cmd_y2 cmd)
      in if ctype cmd = MOVETO then cmd_moveTo (fst pt) (snd pt)
         else if ctype cmd = LINETO then cmd_lineTo (fst pt) (snd pt)
         else if ctype cmd = QUADTO
           then cmd\<lparr>cmd_x := fst pt, cmd_y := snd pt, cmd_x1 := fst ctrl1, cmd_y1 := snd ctrl1\<rparr>
         else if ctype cmd = CURVETO
           then cmd_curveTo (fst ctrl1) (snd ctrl1) (fst ctrl2) (snd ctrl2) (fst pt) (snd pt)
         else cmd_close)"

fun affine_transformShape :: "t_op list \<Rightarrow> jsval \<Rightarrow> result"
and affine_transformShapes :: "t_op list \<Rightarrow> jsval list \<Rightarrow> error + jsval list"
where
  "affine_transformShape t (PathV p) =
     Inr (PathV (p\<lparr>commands := map (transformCommand t) (commands p)\<rparr>))"
| "affine_transformShape t (GroupV ss) =
     (case affine_transformShapes t ss of Inl e \<Rightarrow> Inl e | Inr out \<Rightarrow> Inr (GroupV out))"
| "affine_transformShape t (ArrayV ss) =
     (case affine_transformShapes t ss of Inl e \<Rightarrow> Inl e | Inr out \<Rightarrow> Inr (ArrayV out))"
| "affine_transformShape t (PointV x y) =
     Inr (PointV (fst (transformPoint t (x, y))) (snd (transformPoint t (x, y))))"
| "affine_transformShape t Undefined = Inl TypeError"
| "affine_transformShape t Null = Inl TypeError"
| "affine_transformShape t (RectV r) = Inl (Error ''cannot transform'')"
| "affine_transformShape t (ColorV c) = Inl (Error ''cannot transform'')"
| "affine_transformShapes t [] = Inr []"
| "affine_transformShapes t (s # ss) =
     (case affine_transformShape t s of
        Inl e \<Rightarrow> Inl e
      | Inr d \<Rightarrow>
          (case affine_transformShapes t ss of
             Inl e \<Rightarrow> Inl e
           | Inr ds \<Rightarrow> Inr (d # ds)))"

definition affine_Transform :: "(t_op list) Transform_class" where
  "affine_Transform =
     \<lparr>new_Transform = [],
      t_translate = (\<lambda>t tx ty. t @ [Translate tx ty]),
      t_scale = (\<lambda>t sx sy. t @ [Scale sx sy]),
      transformShape = affine_transformShape\<rparr>"

definition call_order_Transform :: "(t_op list) Transform_class" where
  "call_order_Transform =
     \<lparr>new_Transform = [],
      t_translate = (\<lambda>t tx ty. t @ [Translate tx ty]),
      t_scale = (\<lambda>t sx sy. t @ [Scale sx sy]),
      transformShape = (\<lambda>t. affine_transformShape (rev t))\<rparr>"

text \<open>The image of the rectangle \<open>r\<close> under the map that adds \<open>c\<close>, then multiplies by \<open>s\<close>,
  then adds \<open>p\<close>, on each axis.\<close>

definition image_rect :: "real \<times> real \<Rightarrow> real \<Rightarrow> real \<times> real \<Rightarrow> rect \<Rightarrow> rect" where
  "image_rect p s c r =
     (case (rect_x r, rect_y r, rect_width r, rect_height r) of
        (Num bx, Num by, Num bw, Num bh) \<Rightarrow>
          Rect (min ((bx + fst c) * s + fst p) ((bx + bw + fst c) * s + fst p))
               (min ((by + snd c) * s + snd p) ((by + bh + snd c) * s + snd p))
               (\<bar>s\<bar> * bw) (\<bar>s\<bar> * bh)
      | _ \<Rightarrow> r)"

text \<open>The hypothesis on the class \<^verbatim>\<open>Transform\<close> and on the bounds of a shape under which
  \<^verbatim>\<open>vg.fit\<close> is studied: the transform built by the calls \<^verbatim>\<open>translate(p)\<close>, \<^verbatim>\<open>scale(s, s)\<close>,
  \<^verbatim>\<open>translate(c)\<close>, in this order, applies to the shape, and the bounds of the result are
  the bounds of the shape moved by \<open>c\<close>, then scaled by \<open>s\<close>, then moved by \<open>p\<close>: the
  operation added last acts first.\<close>

definition acts_on_bounds :: "'t Transform_class \<Rightarrow> (jsval \<Rightarrow> rect option) \<Rightarrow> jsval \<Rightarrow> bool" where
  "acts_on_bounds T obj_bounds shape =
     (\<forall>p s c bounds.
        vg_bounds obj_bounds shape = Inr bounds
        \<longrightarrow> (\<exists>shape'.
               transformShape T
                 (t_translate T
                    (t_scale T (t_translate T (new_Transform T) (Num (fst p)) (Num (snd p)))
                       (Num s) (Num s))
                    (Num (fst c)) (Num (snd c)))
                 shape = Inr shape'
             \<and> vg_bounds obj_bounds shape' = Inr (image_rect p s c bounds)))"





section \<open>Properties\<close>

subsection \<open>Deleting\<close>

lemma deletePoints_points_filter:
  "list_all is_point ps \<Longrightarrow>
   deletePoints_points contains (BRect r) invert ps =
     Inr (filter (\<lambda>p. invert = point_inside contains r p) ps)"
proof (induction ps)
  case Nil
  show ?case by simp
next
  case (Cons p ps)
  from Cons.prems obtain x y where p: "p = PointV x y"
    by (cases p) simp_all
  from Cons.prems have rest: "list_all is_point ps" by simp
  show ?case
    using Cons.IH [OF rest]
    by (cases invert; cases "contains r x y")
       (simp_all add: p keeps_def bounding_contains_def)
qed

lemma deletePoints_point_array:
  "list_all is_point ps \<Longrightarrow>
   deletePoints contains (ArrayV ps) (BRect r) invert =
     Inr (ArrayV (filter (\<lambda>p. invert = point_inside contains r p) ps))"
proof (cases ps)
  case Nil
  then show ?thesis by simp
next
  case (Cons p qs)
  assume pts: "list_all is_point ps"
  with Cons obtain x y where p: "p = PointV x y" "x \<noteq> Undef" "y \<noteq> Undef"
    by (cases p) simp_all
  have "has_xy p = Inr True"
    using p by (simp add: has_xy_def)
  then show ?thesis
    using deletePoints_points_filter [OF pts, of contains r invert] Cons by simp
qed

text \<open>
  Claim C2.  For every shape that is not \<^verbatim>\<open>null\<close> and every bounding rectangle that is not
  \<^verbatim>\<open>null\<close>, \<^verbatim>\<open>delete(shape, bounding, scope, invert)\<close> with a scope other than \<^verbatim>\<open>'points'\<close> and
  \<^verbatim>\<open>'paths'\<close> throws the error \<^verbatim>\<open>Invalid scope.\<close>; it returns no value.
\<close>

theorem delete_invalid_scope_throws:
  assumes "shape \<noteq> Null" and "b \<noteq> BNull"
    and "scope \<noteq> Some ''points''" and "scope \<noteq> Some ''paths''"
  shows "vg_delete contains shape b scope invert = Inl (Error ''Invalid scope.'')"
  using assms by (simp add: vg_delete_def)

theorem delete_invalid_scope_throws_witness:
  "PathV \<lparr>commands = [], fill = None, stroke = None, strokeWidth = Num 1\<rparr> \<noteq> Null
   \<and> BRect \<lparr>rect_x = Num 0, rect_y = Num 0, rect_width = Num 4, rect_height = Num 3\<rparr> \<noteq> BNull
   \<and> Some ''bogus-scope'' \<noteq> Some ''points''
   \<and> Some ''bogus-scope'' \<noteq> Some ''paths''
   \<and> vg_delete rect_contains
        (PathV \<lparr>commands = [], fill = None, stroke = None, strokeWidth = Num 1\<rparr>)
        (BRect \<lparr>rect_x = Num 0, rect_y = Num 0, rect_width = Num 4, rect_height = Num 3\<rparr>)
        (Some ''bogus-scope'') False
       = Inl (Error ''Invalid scope.'')"
  using delete_invalid_scope_throws
    [of "PathV \<lparr>commands = [], fill = None, stroke = None, strokeWidth = Num 1\<rparr>"
        "BRect \<lparr>rect_x = Num 0, rect_y = Num 0, rect_width = Num 4, rect_height = Num 3\<rparr>"
        "Some ''bogus-scope''" rect_contains False]
  by simp

text \<open>
  Claim C8.  For every array of points \<open>ps\<close> and every rectangle \<open>r\<close>, the calls
  \<^verbatim>\<open>delete(ps, r, 'points', false)\<close> and \<^verbatim>\<open>delete(ps, r, 'points', true)\<close> are complementary:
  the first returns the points the containment test rejects, the second the points it
  accepts, both in the order of \<open>ps\<close>; every point of \<open>ps\<close> is kept by exactly one of the two
  calls, and the two results together are \<open>ps\<close>.  This holds for every containment test,
  so a point on the boundary is on one side only.
\<close>

theorem delete_points_complementary:
  assumes "list_all is_point ps"
  shows "\<exists>outside inside.
           vg_delete contains (ArrayV ps) (BRect r) (Some ''points'') False = Inr (ArrayV outside)
         \<and> vg_delete contains (ArrayV ps) (BRect r) (Some ''points'') True = Inr (ArrayV inside)
         \<and> outside = filter (\<lambda>p. \<not> point_inside contains r p) ps
         \<and> inside = filter (point_inside contains r) ps
         \<and> set outside \<union> set inside = set ps
         \<and> set outside \<inter> set inside = {}
         \<and> mset outside + mset inside = mset ps"
proof -
  have out: "vg_delete contains (ArrayV ps) (BRect r) (Some ''points'') False
               = Inr (ArrayV (filter (\<lambda>p. \<not> point_inside contains r p) ps))"
    using deletePoints_point_array [OF assms, of contains r False]
    by (simp add: vg_delete_def)
  have ins: "vg_delete contains (ArrayV ps) (BRect r) (Some ''points'') True
               = Inr (ArrayV (filter (point_inside contains r) ps))"
    using deletePoints_point_array [OF assms, of contains r True]
    by (simp add: vg_delete_def)
  have un: "set (filter (\<lambda>p. \<not> point_inside contains r p) ps)
              \<union> set (filter (point_inside contains r) ps) = set ps"
    by auto
  have dis: "set (filter (\<lambda>p. \<not> point_inside contains r p) ps)
               \<inter> set (filter (point_inside contains r) ps) = {}"
    by auto
  have ms: "mset (filter (\<lambda>p. \<not> point_inside contains r p) ps)
              + mset (filter (point_inside contains r) ps) = mset ps"
    by (induction ps) simp_all
  from out ins un dis ms show ?thesis by blast
qed

theorem delete_points_complementary_witness:
  "list_all is_point
     [PointV (Num 0) (Num 0), PointV (Num 4) (Num 3), PointV (Num 5) (Num 5), PointV (Num 2) (Num 1)]
   \<and> vg_delete rect_contains
        (ArrayV [PointV (Num 0) (Num 0), PointV (Num 4) (Num 3), PointV (Num 5) (Num 5),
                 PointV (Num 2) (Num 1)])
        (BRect (Rect 0 0 4 3)) (Some ''points'') False
       = Inr (ArrayV [PointV (Num 5) (Num 5)])
   \<and> vg_delete rect_contains
        (ArrayV [PointV (Num 0) (Num 0), PointV (Num 4) (Num 3), PointV (Num 5) (Num 5),
                 PointV (Num 2) (Num 1)])
        (BRect (Rect 0 0 4 3)) (Some ''points'') True
       = Inr (ArrayV [PointV (Num 0) (Num 0), PointV (Num 4) (Num 3), PointV (Num 2) (Num 1)])"
  using delete_points_complementary
    [of "[PointV (Num 0) (Num 0), PointV (Num 4) (Num 3), PointV (Num 5) (Num 5),
          PointV (Num 2) (Num 1)]" rect_contains "Rect 0 0 4 3"]
  by (simp add: Rect_def new_Rect_def)

subsection \<open>Bounds\<close>

lemma num2_Num [simp]: "num2 f (Num u) (Num v) = Num (f u v)"
  by (simp add: num2_def)

lemma unite_Rect:
  "unite (Rect x1 y1 w1 h1) (Rect x2 y2 w2 h2) =
     Rect (min x1 x2) (min y1 y2)
          (max (x1 + w1) (x2 + w2) - min x1 x2) (max (y1 + h1) (y2 + h2) - min y1 y2)"
  by (simp add: unite_def Rect_def new_Rect_def jmin_def jmax_def jadd_def jsub_def)

lemma enclosing_rect_single: "enclosing_rect [(x, y)] = Rect x y 0 0"
  by (simp add: enclosing_rect_def)

lemma enclosing_rect_snoc:
  assumes "qs \<noteq> []"
  shows "unite (enclosing_rect qs) (Rect x y 0 0) = enclosing_rect (qs @ [(x, y)])"
proof -
  have fin: "finite (fst ` set qs)" "finite (snd ` set qs)" by simp_all
  have ne: "fst ` set qs \<noteq> {}" "snd ` set qs \<noteq> {}" using assms by simp_all
  show ?thesis
    using fin ne
    by (simp add: enclosing_rect_def unite_Rect Min_insert Max_insert min.commute max.commute)
qed

lemma vg_bounds_loop_points:
  "qs \<noteq> [] \<Longrightarrow>
   vg_bounds_loop ob (enclosing_rect qs) (map (\<lambda>(x, y). PointV (Num x) (Num y)) ps)
     = Inr (enclosing_rect (qs @ ps))"
proof (induction ps arbitrary: qs)
  case Nil
  show ?case by simp
next
  case (Cons p ps)
  obtain x y where p: "p = (x, y)" by (cases p)
  have "vg_bounds_loop ob (enclosing_rect (qs @ [(x, y)])) (map (\<lambda>(x, y). PointV (Num x) (Num y)) ps)
          = Inr (enclosing_rect ((qs @ [(x, y)]) @ ps))"
    by (rule Cons.IH) simp
  then show ?case
    using enclosing_rect_snoc [OF Cons.prems, of x y]
    by (simp add: p Rect_def)
qed

lemma vg_bounds_point_array:
  "ps \<noteq> [] \<Longrightarrow> vg_bounds ob (point_array ps) = Inr (enclosing_rect ps)"
proof (cases ps)
  case Nil
  assume "ps \<noteq> []"
  with Nil show ?thesis by simp
next
  case (Cons p qs)
  obtain x y where p: "p = (x, y)" by (cases p)
  have "vg_bounds_loop ob (enclosing_rect [(x, y)]) (map (\<lambda>(x, y). PointV (Num x) (Num y)) qs)
          = Inr (enclosing_rect ([(x, y)] @ qs))"
    by (rule vg_bounds_loop_points) simp
  then show ?thesis
    by (simp add: Cons p point_array_def enclosing_rect_single Rect_def)
qed

lemma vg_bounds_loop_foldl:
  "map (vg_bounds ob) ss = map Inr bs \<Longrightarrow> vg_bounds_loop ob r ss = Inr (foldl unite r bs)"
proof (induction ss arbitrary: r bs)
  case Nil
  then show ?case by simp
next
  case (Cons s ss)
  then obtain b bs' where bs: "bs = b # bs'" "vg_bounds ob s = Inr b"
      "map (vg_bounds ob) ss = map Inr bs'"
    by (cases bs) auto
  show ?case
    using Cons.IH [OF bs(3), of "unite r b"] bs(1,2) by simp
qed

lemma vg_bounds_array_foldl:
  assumes "s \<noteq> Undefined" and "s \<noteq> Null" and "\<not> is_color s"
    and "map (vg_bounds ob) (s # ss) = map Inr (b # bs)"
  shows "vg_bounds ob (ArrayV (s # ss)) = Inr (foldl unite b bs)"
proof -
  from assms(4) have b: "vg_bounds ob s = Inr b" and bs: "map (vg_bounds ob) ss = map Inr bs"
    by simp_all
  show ?thesis
    using assms(1-3) b vg_bounds_loop_foldl [OF bs, of b]
    by (cases s) simp_all
qed

text \<open>
  Claim C4.  The bounds of an array of shapes are the union of the children's bounds:
  when the first element is an object other than a colour and the children's bounds are
  \<open>b # bs\<close>, the result is \<open>b\<close> united with each of \<open>bs\<close> in turn.  An empty array yields
  the zero rectangle at the origin; a single point yields the zero-size rectangle at
  that point, alone or as the only element of an array.  For an array of points the
  union is the rectangle from the least to the greatest coordinate on each axis, and
  the bounds of \<open>[(0,0),(4,0),(4,3),(0,3)]\<close> are \<open>Rect(0,0,4,3)\<close>.
\<close>

theorem bounds_array_is_union:
  "vg_bounds ob (ArrayV []) = Inr (Rect 0 0 0 0)
   \<and> (x \<noteq> Undef \<and> y \<noteq> Undef \<longrightarrow> vg_bounds ob (PointV x y) = Inr (new_Rect x y (Num 0) (Num 0)))
   \<and> vg_bounds ob (point_array [(px, py)]) = Inr (Rect px py 0 0)
   \<and> (s \<noteq> Undefined \<and> s \<noteq> Null \<and> \<not> is_color s
        \<and> map (vg_bounds ob) (s # ss) = map Inr (b # bs)
      \<longrightarrow> vg_bounds ob (ArrayV (s # ss)) = Inr (foldl unite b bs))
   \<and> (ps \<noteq> [] \<longrightarrow> vg_bounds ob (point_array ps) = Inr (enclosing_rect ps))
   \<and> vg_bounds ob (point_array [(0, 0), (4, 0), (4, 3), (0, 3)]) = Inr (Rect 0 0 4 3)"
proof -
  have empty: "vg_bounds ob (ArrayV []) = Inr (Rect 0 0 0 0)"
    by (simp add: new_Rect0_def Rect_def)
  have point: "x \<noteq> Undef \<and> y \<noteq> Undef \<longrightarrow>
      vg_bounds ob (PointV x y) = Inr (new_Rect x y (Num 0) (Num 0))"
    by simp
  have single: "vg_bounds ob (point_array [(px, py)]) = Inr (Rect px py 0 0)"
    by (simp add: point_array_def Rect_def)
  have union: "s \<noteq> Undefined \<and> s \<noteq> Null \<and> \<not> is_color s
        \<and> map (vg_bounds ob) (s # ss) = map Inr (b # bs)
      \<longrightarrow> vg_bounds ob (ArrayV (s # ss)) = Inr (foldl unite b bs)"
    using vg_bounds_array_foldl by blast
  have points: "ps \<noteq> [] \<longrightarrow> vg_bounds ob (point_array ps) = Inr (enclosing_rect ps)"
    using vg_bounds_point_array by blast
  have example: "vg_bounds ob (point_array [(0, 0), (4, 0), (4, 3), (0, 3)]) = Inr (Rect 0 0 4 3)"
    by (simp add: vg_bounds_point_array enclosing_rect_def)
  from empty point single union points example show ?thesis by blast
qed

theorem bounds_array_is_union_witness:
  "vg_bounds (\<lambda>v. Some (Rect 1 1 2 2)) (ArrayV []) = Inr (Rect 0 0 0 0)
   \<and> vg_bounds (\<lambda>v. Some (Rect 1 1 2 2)) (PointV (Num 7) (Num 5)) = Inr (Rect 7 5 0 0)
   \<and> vg_bounds (\<lambda>v. Some (Rect 1 1 2 2)) (point_array [(7, 5)]) = Inr (Rect 7 5 0 0)
   \<and> vg_bounds (\<lambda>v. Some (Rect 1 1 2 2))
        (ArrayV [PathV \<lparr>commands = [], fill = None, stroke = None, strokeWidth = Num 1\<rparr>,
                 PointV (Num 7) (Num 5), Null])
       = Inr (Rect 0 0 7 5)
   \<and> vg_bounds (\<lambda>v. Some (Rect 1 1 2 2)) (point_array [(2, 9), (-1, 4), (3, 5)]) = Inr (Rect (-1) 4 4 5)
   \<and> vg_bounds (\<lambda>v. Some (Rect 1 1 2 2)) (point_array [(0, 0), (4, 0), (4, 3), (0, 3)]) = Inr (Rect 0 0 4 3)"
  using bounds_array_is_union
    [of "\<lambda>v. Some (Rect 1 1 2 2)" "Num 7" "Num 5" 7 5
        "PathV \<lparr>commands = [], fill = None, stroke = None, strokeWidth = Num 1\<rparr>"
        "[PointV (Num 7) (Num 5), Null]" "Rect 1 1 2 2" "[Rect 7 5 0 0, Rect 0 0 0 0]"
        "[(2, 9), (-1, 4), (3, 5)]"]
  by (simp add: unite_Rect enclosing_rect_def new_Rect0_def Rect_def [symmetric])

text \<open>
  Claim C10.  For a single colour value (an object with \<^verbatim>\<open>r\<close>, \<^verbatim>\<open>g\<close> and \<^verbatim>\<open>b\<close> that is not an
  array) \<^verbatim>\<open>vg.bounds\<close> throws instead of returning a rectangle: the branch evaluates
  \<^verbatim>\<open>new vg.Rect(0, 0, 30, 30)\<close>, and no property \<^verbatim>\<open>Rect\<close> is ever assigned to the module
  object \<^verbatim>\<open>vg\<close>.
\<close>

theorem bounds_of_color_throws:
  "''Rect'' \<notin> set vg_properties \<and> vg_bounds ob (ColorV c) = Inl TypeError"
  by (simp add: new_vg_Rect_def vg_properties_def)

theorem bounds_of_color_throws_witness:
  "vg_bounds (\<lambda>v. Some (Rect 1 1 2 2)) (ColorV \<lparr>col_r = 1, col_g = 0, col_b = 0, col_a = 1\<rparr>)
     = Inl TypeError"
  using bounds_of_color_throws
    [of "\<lambda>v. Some (Rect 1 1 2 2)" "\<lparr>col_r = 1, col_g = 0, col_b = 0, col_a = 1\<rparr>"]
  by simp

subsection \<open>Missing shapes\<close>

text \<open>
  Claim C1, as the code has it.  \<^verbatim>\<open>fit\<close>, \<^verbatim>\<open>mirror\<close>, \<^verbatim>\<open>snap\<close>, \<^verbatim>\<open>align\<close> and \<^verbatim>\<open>scatterPoints\<close> start
  with \<^verbatim>\<open>if (!shape) return;\<close>: a missing shape (\<^verbatim>\<open>undefined\<close> or \<^verbatim>\<open>null\<close>) gives \<^verbatim>\<open>undefined\<close> and
  nothing is thrown.  \<^verbatim>\<open>translate\<close>, \<^verbatim>\<open>scale\<close>, \<^verbatim>\<open>rotate\<close> and \<^verbatim>\<open>skew\<close> have no such guard: they
  read a property of the shape first and throw a \<^verbatim>\<open>TypeError\<close> on a missing shape.
  \<^verbatim>\<open>delete\<close> returns \<^verbatim>\<open>null\<close>, not \<^verbatim>\<open>undefined\<close>, when the shape is \<^verbatim>\<open>null\<close>.
\<close>

theorem missing_shape_results:
  "vg_fit T ob Undefined pos w h st = Inr Undefined \<and> vg_fit T ob Null pos w h st = Inr Undefined
   \<and> vg_mirror G Undefined a orig k = Inr Undefined \<and> vg_mirror G Null a orig k = Inr Undefined
   \<and> vg_snap ms Undefined d s c = Inr Undefined \<and> vg_snap ms Null d s c = Inr Undefined
   \<and> vg_align T ob Undefined pos ha va = Inr Undefined \<and> vg_align T ob Null pos ha va = Inr Undefined
   \<and> vg_scatterPoints R ob oc np pp pip rv Undefined n seed = Inr Undefined
   \<and> vg_scatterPoints R ob oc np pp pip rv Null n seed = Inr Undefined
   \<and> vg_translate own1 gen1 Undefined p1 = Inl TypeError \<and> vg_translate own1 gen1 Null p1 = Inl TypeError
   \<and> vg_scale own2 gen2 Undefined s2 o2 = Inl TypeError \<and> vg_scale own2 gen2 Null s2 o2 = Inl TypeError
   \<and> vg_rotate own3 gen3 Undefined a3 o3 = Inl TypeError \<and> vg_rotate own3 gen3 Null a3 o3 = Inl TypeError
   \<and> vg_skew own4 gen4 Undefined s4 o4 = Inl TypeError \<and> vg_skew own4 gen4 Null s4 o4 = Inl TypeError
   \<and> vg_delete contains Null b scope invert = Inr Null"
  by (simp add: vg_fit_def vg_mirror_def vg_snap_def vg_align_def vg_scatterPoints_def
      vg_translate_def vg_scale_def vg_rotate_def vg_skew_def vg_delete_def)

theorem missing_shape_results_witness:
  "vg_fit affine_Transform (\<lambda>v. Some (Rect 0 0 0 0)) Undefined (10, 10) 8 12 (Some False) = Inr Undefined
   \<and> vg_snap math_snap Null 5 (Some 1) None = Inr Undefined
   \<and> vg_align affine_Transform (\<lambda>v. Some (Rect 0 0 0 0)) Undefined (10, 10) ''left'' ''top'' = Inr Undefined
   \<and> vg_translate (\<lambda>v. None) (\<lambda>v (p :: real \<times> real). Inr v) Null (1, 2) = Inl TypeError
   \<and> vg_scale (\<lambda>v. None) (\<lambda>v (s :: real) (c :: real \<times> real). Inr v) Undefined 2 (0, 0) = Inl TypeError
   \<and> vg_delete rect_contains Null (BRect (Rect 0 0 4 3)) (Some ''points'') False = Inr Null"
  using missing_shape_results
    [where T = affine_Transform and ob = "\<lambda>v. Some (Rect 0 0 0 0)" and pos = "(10, 10)" and w = 8 and h = 12
       and st = "Some False"
       and G = "\<lparr>geo_distance = (\<lambda>a b c d. NaN), geo_angle = (\<lambda>a b c d. NaN),
                  geo_coordinates = (\<lambda>a b c d. (NaN, NaN)), math_radians = (\<lambda>a. NaN)\<rparr>"
       and a = None and orig = None and k = False
       and ms = math_snap and d = 5 and s = "Some 1" and c = None
       and ha = "''left''" and va = "''top''"
       and R = lcg and oc = "\<lambda>v. Some []"
       and np = "\<lambda>c. \<lparr>commands = c, fill = None, stroke = None, strokeWidth = Num 1\<rparr>"
       and pp = "\<lambda>q (k :: nat). q" and pip = "\<lambda>q x y. True" and rv = "1 / 2" and n = 2
       and seed = "Some 42"
       and ?own1.0 = "\<lambda>v. None" and ?gen1.0 = "\<lambda>v (p :: real \<times> real). Inr v" and ?p1.0 = "(1, 2)"
       and ?own2.0 = "\<lambda>v. None" and ?gen2.0 = "\<lambda>v (s :: real) (c :: real \<times> real). Inr v"
       and ?s2.0 = 2 and ?o2.0 = "(0, 0)"
       and ?own3.0 = "\<lambda>v. None" and ?gen3.0 = "\<lambda>v (s :: real) (c :: real \<times> real). Inr v"
       and ?a3.0 = 90 and ?o3.0 = "(0, 0)"
       and ?own4.0 = "\<lambda>v. None" and ?gen4.0 = "\<lambda>v (s :: real) (c :: real \<times> real). Inr v"
       and ?s4.0 = 2 and ?o4.0 = "(0, 0)"
       and contains = rect_contains and b = "BRect (Rect 0 0 4 3)" and scope = "Some ''points''"
       and invert = False]
  by simp

text \<open>The claim as stated fails: \<^verbatim>\<open>vg.translate(undefined, {x: 1, y: 2})\<close> throws a \<^verbatim>\<open>TypeError\<close>
  at \<^verbatim>\<open>shape.translate\<close>, whatever the methods of the shapes are; it does not return
  \<^verbatim>\<open>undefined\<close>.\<close>

theorem translate_missing_shape_counterexample:
  "vg_translate (\<lambda>v. None) (\<lambda>v (p :: real \<times> real). Inr v) Undefined (1, 2) = Inl TypeError
   \<and> vg_translate (\<lambda>v. None) (\<lambda>v (p :: real \<times> real). Inr v) Undefined (1, 2) \<noteq> Inr Undefined"
  by (simp add: vg_translate_def)

subsection \<open>Snapping\<close>

lemma jsub_not_Undef [simp]: "jsub a b \<noteq> Undef"
  by (simp add: jsub_def num2_def split: jsnum.splits)

lemma num2_NaN [simp]: "num2 f NaN b = NaN" "num2 f a NaN = NaN" "num2 f Undef b = NaN" "num2 f a Undef = NaN"
  by (simp_all add: num2_def split: jsnum.splits)


lemma snap_coord_not_Undef [simp]: "snap_coord ms d s c v \<noteq> Undef"
  by (simp add: snap_coord_def)








subsection \<open>Wiggling\<close>





lemma lcg_unit_interval: "unit_interval_generator lcg"
  by (simp add: unit_interval_generator_def lcg_def Let_def)











subsection \<open>Scattering\<close>

lemma scatter_tries_point:
  assumes "unit_interval_generator R" and "0 \<le> bw" and "0 \<le> bh"
    and "scatter_tries R pip (Rect bx by bw bh) paths tries g = (Some pt, g')"
  shows "\<exists>x y. pt = PointV (Num x) (Num y) \<and> bx \<le> x \<and> x \<le> bx + bw \<and> by \<le> y \<and> y \<le> by + bh"
  using assms(4)
proof (induction tries arbitrary: g)
  case 0
  then show ?case by simp
next
  case (Suc tries)
  obtain r1 g1 where r1: "rand R g = (r1, g1)" by (cases "rand R g")
  obtain r2 g2 where r2: "rand R g1 = (r2, g2)" by (cases "rand R g1")
  from assms(1) r1 have b1: "0 \<le> r1" "r1 < 1"
    by (auto simp: unit_interval_generator_def dest: spec [of _ g])
  from assms(1) r2 have b2: "0 \<le> r2" "r2 < 1"
    by (auto simp: unit_interval_generator_def dest: spec [of _ g1])
  have x: "bx \<le> bx + r1 * bw" "bx + r1 * bw \<le> bx + bw"
    using b1 assms(2) by (simp_all add: mult_left_le_one_le)
  have y: "by \<le> by + r2 * bh" "by + r2 * bh \<le> by + bh"
    using b2 assms(3) by (simp_all add: mult_left_le_one_le)
  show ?case
  proof (cases "length (filter (\<lambda>p. pip p (Num (bx + r1 * bw)) (Num (by + r2 * bh))) paths) mod 2 \<noteq> 0")
    case True
    with Suc.prems r1 r2 have "pt = PointV (Num (bx + r1 * bw)) (Num (by + r2 * bh))"
      by (simp add: Rect_def new_Rect_def jadd_def jmul_def)
    with x y show ?thesis by blast
  next
    case False
    with Suc.prems r1 r2 have "scatter_tries R pip (Rect bx by bw bh) paths tries g2 = (Some pt, g')"
      by (simp add: Rect_def new_Rect_def jadd_def jmul_def)
    then show ?thesis by (rule Suc.IH)
  qed
qed

lemma scatter_loop_length:
  "length (scatter_loop R pip bounds paths n g) \<le> n"
proof (induction n arbitrary: g)
  case 0
  show ?case by simp
next
  case (Suc n)
  obtain r g' where t: "scatter_tries R pip bounds paths 100 g = (r, g')"
    by (cases "scatter_tries R pip bounds paths 100 g")
  show ?case
    using Suc.IH [of g'] t by (cases r) (simp_all add: le_SucI)
qed

lemma scatter_loop_points:
  assumes "unit_interval_generator R" and "0 \<le> bw" and "0 \<le> bh"
  shows "\<forall>pt \<in> set (scatter_loop R pip (Rect bx by bw bh) paths n g).
           \<exists>x y. pt = PointV (Num x) (Num y) \<and> bx \<le> x \<and> x \<le> bx + bw \<and> by \<le> y \<and> y \<le> by + bh"
proof (induction n arbitrary: g)
  case 0
  show ?case by simp
next
  case (Suc n)
  obtain r g' where t: "scatter_tries R pip (Rect bx by bw bh) paths 100 g = (r, g')"
    by (cases "scatter_tries R pip (Rect bx by bw bh) paths 100 g")
  show ?case
  proof (cases r)
    case None
    with t Suc.IH [of g'] show ?thesis by simp
  next
    case (Some pt)
    with t scatter_tries_point [OF assms, of pip bx "by" paths 100 g pt g']
    have "\<exists>x y. pt = PointV (Num x) (Num y) \<and> bx \<le> x \<and> x \<le> bx + bw \<and> by \<le> y \<and> y \<le> by + bh"
      by simp
    with t Some Suc.IH [of g'] show ?thesis by simp
  qed
qed

lemma scatter_tries_numeral:
  "scatter_tries R pointInPolygon bounds paths (numeral k) g =
     (let (r1, g1) = rand R g;
          x = jadd (rect_x bounds) (jmul (Num r1) (rect_width bounds));
          (r2, g2) = rand R g1;
          y = jadd (rect_y bounds) (jmul (Num r2) (rect_height bounds));
          inContourCount = length (filter (\<lambda>p. pointInPolygon p x y) paths)
      in if inContourCount mod 2 \<noteq> 0 then (Some (PointV x y), g2)
         else scatter_tries R pointInPolygon bounds paths (pred_numeral k) g2)"
  by (simp add: numeral_eq_Suc)

lemma scatter_loop_numeral:
  "scatter_loop R pointInPolygon bounds paths (numeral k) g =
     (case scatter_tries R pointInPolygon bounds paths 100 g of
        (Some pt, g') \<Rightarrow> pt # scatter_loop R pointInPolygon bounds paths (pred_numeral k) g'
      | (None, g') \<Rightarrow> scatter_loop R pointInPolygon bounds paths (pred_numeral k) g')"
  by (simp add: numeral_eq_Suc)

lemma scatter_tries_fail:
  assumes "\<forall>p x y. \<not> pip p x y"
  shows "fst (scatter_tries R pip bounds paths tries g) = None"
proof (induction tries arbitrary: g)
  case 0
  show ?case by simp
next
  case (Suc tries)
  obtain r1 g1 where r1: "rand R g = (r1, g1)" by (cases "rand R g")
  obtain r2 g2 where r2: "rand R g1 = (r2, g2)" by (cases "rand R g1")
  show ?case
    using Suc.IH [of g2] r1 r2 assms by simp
qed

lemma scatter_loop_fail:
  assumes "\<forall>p x y. \<not> pip p x y"
  shows "scatter_loop R pip bounds paths n g = []"
proof (induction n arbitrary: g)
  case 0
  show ?case by simp
next
  case (Suc n)
  obtain r g' where t: "scatter_tries R pip bounds paths 100 g = (r, g')"
    by (cases "scatter_tries R pip bounds paths 100 g")
  have "fst (scatter_tries R pip bounds paths 100 g) = None"
    using assms by (rule scatter_tries_fail)
  with t have "r = None" by simp
  with t Suc.IH [of g'] show ?case by simp
qed

text \<open>
  Claim C6, as the code has it.  For every shape that has the methods \<^verbatim>\<open>bounds()\<close> and
  \<^verbatim>\<open>contours()\<close> (a Path or a Group of the library, not an array), every amount \<open>n\<close> and
  every seed, \<^verbatim>\<open>scatterPoints(shape, n, seed)\<close> returns an array of at most \<open>n\<close> points
  (every point gets at most 100 placement attempts and is dropped when all fail); when
  the generator draws from \<open>[0, 1)\<close> and the bounds have non-negative width and height,
  every returned point lies within the bounds.
\<close>

theorem scatterPoints_within_bounds:
  assumes "shape = PathV p \<or> shape = GroupV ss"
    and "ob shape = Some bounds" and "oc shape = Some contours"
  shows "\<exists>pts. vg_scatterPoints R ob oc np pp pip rv shape n seed = Inr (ArrayV pts)
           \<and> length pts \<le> n
           \<and> (unit_interval_generator R \<and> bounds = Rect bx by bw bh \<and> 0 \<le> bw \<and> 0 \<le> bh
                \<longrightarrow> (\<forall>pt \<in> set pts. \<exists>x y. pt = PointV (Num x) (Num y)
                        \<and> bx \<le> x \<and> x \<le> bx + bw \<and> by \<le> y \<and> y \<le> by + bh))"
proof -
  let ?g = "generator R (seed_or_random seed rv)"
  let ?paths = "map (\<lambda>c. pp (np c) (length (commands (np c)) * 5)) contours"
  let ?pts = "scatter_loop R pip bounds ?paths n ?g"
  have run: "vg_scatterPoints R ob oc np pp pip rv shape n seed = Inr (ArrayV ?pts)"
    using assms by (auto simp: vg_scatterPoints_def scatter_object_def Let_def)
  have len: "length ?pts \<le> n"
    by (rule scatter_loop_length)
  have inside: "unit_interval_generator R \<and> bounds = Rect bx by bw bh \<and> 0 \<le> bw \<and> 0 \<le> bh
                \<longrightarrow> (\<forall>pt \<in> set ?pts. \<exists>x y. pt = PointV (Num x) (Num y)
                        \<and> bx \<le> x \<and> x \<le> bx + bw \<and> by \<le> y \<and> y \<le> by + bh)"
    using scatter_loop_points [of R bw bh pip bx "by" ?paths n ?g] by simp
  from run len inside show ?thesis by blast
qed

theorem scatterPoints_within_bounds_witness:
  "unit_interval_generator lcg
   \<and> vg_scatterPoints lcg (\<lambda>v. Some (Rect 0 0 4 3)) (\<lambda>v. Some [[cmd_moveTo (Num 0) (Num 0)]])
        (\<lambda>c. \<lparr>commands = c, fill = None, stroke = None, strokeWidth = Num 1\<rparr>)
        (\<lambda>q k. q) (\<lambda>q x y. True) (1 / 2)
        (PathV \<lparr>commands = [cmd_moveTo (Num 0) (Num 0)], fill = None, stroke = None,
                strokeWidth = Num 1\<rparr>) 2 (Some 42)
       = Inr (ArrayV [PointV (Num (206659 / 58320)) (Num (11921 / 4860)),
                      PointV (Num (24857 / 6480)) (Num (17959 / 7776))])
   \<and> (0 :: real) \<le> 206659 / 58320 \<and> (206659 / 58320 :: real) \<le> 0 + 4
   \<and> (0 :: real) \<le> 11921 / 4860 \<and> (11921 / 4860 :: real) \<le> 0 + 3
   \<and> vg_scatterPoints lcg (\<lambda>v. Some (Rect 0 0 4 3)) (\<lambda>v. Some [[cmd_moveTo (Num 0) (Num 0)]])
        (\<lambda>c. \<lparr>commands = c, fill = None, stroke = None, strokeWidth = Num 1\<rparr>)
        (\<lambda>q k. q) (\<lambda>q x y. False) (1 / 2)
        (PathV \<lparr>commands = [cmd_moveTo (Num 0) (Num 0)], fill = None, stroke = None,
                strokeWidth = Num 1\<rparr>) 50 (Some 42)
       = Inr (ArrayV [])"
proof -
  have some: "vg_scatterPoints lcg (\<lambda>v. Some (Rect 0 0 4 3)) (\<lambda>v. Some [[cmd_moveTo (Num 0) (Num 0)]])
        (\<lambda>c. \<lparr>commands = c, fill = None, stroke = None, strokeWidth = Num 1\<rparr>)
        (\<lambda>q k. q) (\<lambda>q x y. True) (1 / 2)
        (PathV \<lparr>commands = [cmd_moveTo (Num 0) (Num 0)], fill = None, stroke = None,
                strokeWidth = Num 1\<rparr>) 2 (Some 42)
       = Inr (ArrayV [PointV (Num (206659 / 58320)) (Num (11921 / 4860)),
                      PointV (Num (24857 / 6480)) (Num (17959 / 7776))])"
    by (simp add: vg_scatterPoints_def scatter_object_def lcg_def seed_or_random_def Rect_def new_Rect_def
        jadd_def jmul_def scatter_tries_numeral scatter_loop_numeral Let_def)
  have none: "vg_scatterPoints lcg (\<lambda>v. Some (Rect 0 0 4 3)) (\<lambda>v. Some [[cmd_moveTo (Num 0) (Num 0)]])
        (\<lambda>c. \<lparr>commands = c, fill = None, stroke = None, strokeWidth = Num 1\<rparr>)
        (\<lambda>q k. q) (\<lambda>q x y. False) (1 / 2)
        (PathV \<lparr>commands = [cmd_moveTo (Num 0) (Num 0)], fill = None, stroke = None,
                strokeWidth = Num 1\<rparr>) 50 (Some 42)
       = Inr (ArrayV [])"
    by (simp add: vg_scatterPoints_def scatter_object_def scatter_loop_fail)
  have inside: "(0 :: real) \<le> 206659 / 58320 \<and> (206659 / 58320 :: real) \<le> 0 + 4
      \<and> (0 :: real) \<le> 11921 / 4860 \<and> (11921 / 4860 :: real) \<le> 0 + 3"
    using scatterPoints_within_bounds
      [where shape = "PathV \<lparr>commands = [cmd_moveTo (Num 0) (Num 0)], fill = None, stroke = None,
                strokeWidth = Num 1\<rparr>"
         and p = "\<lparr>commands = [cmd_moveTo (Num 0) (Num 0)], fill = None, stroke = None,
                strokeWidth = Num 1\<rparr>"
         and R = lcg and ob = "\<lambda>v. Some (Rect 0 0 4 3)"
         and oc = "\<lambda>v. Some [[cmd_moveTo (Num 0) (Num 0)]]"
         and bounds = "Rect 0 0 4 3" and contours = "[[cmd_moveTo (Num 0) (Num 0)]]"
         and np = "\<lambda>c. \<lparr>commands = c, fill = None, stroke = None, strokeWidth = Num 1\<rparr>"
         and pp = "\<lambda>q k. q" and pip = "\<lambda>q x y. True" and rv = "1 / 2" and n = 2 and seed = "Some 42"
         and bx = 0 and ?by = 0 and bw = 4 and bh = 3]
      some lcg_unit_interval
    by simp
  from some none inside lcg_unit_interval show ?thesis by simp
qed

text \<open>The claim as stated (every non-null shape) fails on an array: the function calls
  \<^verbatim>\<open>shape.bounds()\<close>, which an array does not have, and throws a \<^verbatim>\<open>TypeError\<close> instead of
  returning a list.\<close>

theorem scatterPoints_array_counterexample:
  "point_array [(0, 0), (4, 0), (4, 3), (0, 3)] \<noteq> Null
   \<and> vg_scatterPoints lcg (\<lambda>v. Some (Rect 0 0 4 3)) (\<lambda>v. Some [])
        (\<lambda>c. \<lparr>commands = c, fill = None, stroke = None, strokeWidth = Num 1\<rparr>)
        (\<lambda>q k. q) (\<lambda>q x y. True) (1 / 2)
        (point_array [(0, 0), (4, 0), (4, 3), (0, 3)]) 50 (Some 1)
       = Inl TypeError"
  by (simp add: vg_scatterPoints_def point_array_def)

subsection \<open>Fitting\<close>

lemma Rect_eq_iff [simp]:
  "Rect x y w h = Rect x' y' w' h' \<longleftrightarrow> x = x' \<and> y = y' \<and> w = w' \<and> h = h'"
  by (simp add: Rect_def new_Rect_def)

lemma clamp_small_Num: "clamp_small (Num v) = (if v > 1 / 10 ^ 12 then v else 0)"
  by (simp add: clamp_small_def)

lemma fit_scale_uniform:
  assumes "bw > 0" and "bh > 0"
  shows "fit_scale bw bh w h False = (min (w / bw) (h / bh), min (w / bw) (h / bh))"
  using assms by (simp add: fit_scale_def Let_def)

lemma fit_transform_big:
  assumes "bw > 1 / 10 ^ 12" and "bh > 1 / 10 ^ 12"
  shows "fit_transform T (Rect bx by bw bh) (px, py) w h False =
           t_translate T
             (t_scale T (t_translate T (new_Transform T) (Num px) (Num py))
                (Num (min (w / bw) (h / bh))) (Num (min (w / bw) (h / bh))))
             (Num (- bw / 2 - bx)) (Num (- bh / 2 - by))"
proof -
  have pos: "bw > 0" "bh > 0"
  proof -
    have "(0::real) < 1 / 10 ^ 12" by simp
    with assms show "bw > 0" "bh > 0" by linarith+
  qed
  show ?thesis
    using assms
    by (simp add: fit_transform_def Rect_def new_Rect_def clamp_small_Num
          fit_scale_uniform [OF pos] jsub_def Let_def)
qed

lemma affine_transformShapes_points:
  "affine_transformShapes [Translate (Num px) (Num py), Scale (Num sx) (Num sy), Translate (Num cx) (Num cy)]
     (map (\<lambda>(x, y). PointV (Num x) (Num y)) ps)
   = Inr (map (\<lambda>(x, y). PointV (Num x) (Num y))
            (map (\<lambda>(x, y). ((x + cx) * sx + px, (y + cy) * sy + py)) ps))"
  by (induction ps) (auto simp: transformPoint_def jadd_def jmul_def)

lemma Min_affine_image:
  fixes A :: "real set"
  assumes "finite A" and "A \<noteq> {}"
  shows "Min ((\<lambda>x. (x + c) * s + p) ` A) = (if 0 \<le> s then (Min A + c) * s + p else (Max A + c) * s + p)"
proof (cases "0 \<le> s")
  case True
  have "Min ((\<lambda>x. (x + c) * s + p) ` A) = (Min A + c) * s + p"
  proof (rule Min_eqI)
    show "finite ((\<lambda>x. (x + c) * s + p) ` A)" using assms by simp
    show "(Min A + c) * s + p \<in> (\<lambda>x. (x + c) * s + p) ` A"
      using Min_in [OF assms] by blast
    fix y assume "y \<in> (\<lambda>x. (x + c) * s + p) ` A"
    then obtain x where x: "x \<in> A" "y = (x + c) * s + p" by blast
    have "Min A \<le> x" using assms x(1) by simp
    then show "(Min A + c) * s + p \<le> y"
      using True x(2) by (simp add: mult_right_mono)
  qed
  with True show ?thesis by simp
next
  case False
  have "Min ((\<lambda>x. (x + c) * s + p) ` A) = (Max A + c) * s + p"
  proof (rule Min_eqI)
    show "finite ((\<lambda>x. (x + c) * s + p) ` A)" using assms by simp
    show "(Max A + c) * s + p \<in> (\<lambda>x. (x + c) * s + p) ` A"
      using Max_in [OF assms] by blast
    fix y assume "y \<in> (\<lambda>x. (x + c) * s + p) ` A"
    then obtain x where x: "x \<in> A" "y = (x + c) * s + p" by blast
    have "x \<le> Max A" using assms x(1) by simp
    then show "(Max A + c) * s + p \<le> y"
      using False x(2) by (simp add: mult_right_mono_neg)
  qed
  with False show ?thesis by simp
qed

lemma Max_affine_image:
  fixes A :: "real set"
  assumes "finite A" and "A \<noteq> {}"
  shows "Max ((\<lambda>x. (x + c) * s + p) ` A) = (if 0 \<le> s then (Max A + c) * s + p else (Min A + c) * s + p)"
proof (cases "0 \<le> s")
  case True
  have "Max ((\<lambda>x. (x + c) * s + p) ` A) = (Max A + c) * s + p"
  proof (rule Max_eqI)
    show "finite ((\<lambda>x. (x + c) * s + p) ` A)" using assms by simp
    show "(Max A + c) * s + p \<in> (\<lambda>x. (x + c) * s + p) ` A"
      using Max_in [OF assms] by blast
    fix y assume "y \<in> (\<lambda>x. (x + c) * s + p) ` A"
    then obtain x where x: "x \<in> A" "y = (x + c) * s + p" by blast
    have "x \<le> Max A" using assms x(1) by simp
    then show "y \<le> (Max A + c) * s + p"
      using True x(2) by (simp add: mult_right_mono)
  qed
  with True show ?thesis by simp
next
  case False
  have "Max ((\<lambda>x. (x + c) * s + p) ` A) = (Min A + c) * s + p"
  proof (rule Max_eqI)
    show "finite ((\<lambda>x. (x + c) * s + p) ` A)" using assms by simp
    show "(Min A + c) * s + p \<in> (\<lambda>x. (x + c) * s + p) ` A"
      using Min_in [OF assms] by blast
    fix y assume "y \<in> (\<lambda>x. (x + c) * s + p) ` A"
    then obtain x where x: "x \<in> A" "y = (x + c) * s + p" by blast
    have "Min A \<le> x" using assms x(1) by simp
    then show "y \<le> (Min A + c) * s + p"
      using False x(2) by (simp add: mult_right_mono_neg)
  qed
  with False show ?thesis by simp
qed

lemma enclosing_rect_affine:
  assumes "ps \<noteq> []" and "enclosing_rect ps = Rect bx by bw bh"
  shows "enclosing_rect (map (\<lambda>(x, y). ((x + (- bw / 2 - bx)) * s + px, (y + (- bh / 2 - by)) * s + py)) ps)
           = Rect (px - \<bar>s\<bar> * bw / 2) (py - \<bar>s\<bar> * bh / 2) (\<bar>s\<bar> * bw) (\<bar>s\<bar> * bh)"
proof -
  let ?X = "fst ` set ps" and ?Y = "snd ` set ps"
  have fin: "finite ?X" "finite ?Y" by simp_all
  have ne: "?X \<noteq> {}" "?Y \<noteq> {}" using assms(1) by simp_all
  from assms(2) have b: "bx = Min ?X" "by = Min ?Y" "bw = Max ?X - Min ?X" "bh = Max ?Y - Min ?Y"
    by (simp_all add: enclosing_rect_def)
  have imX: "fst ` set (map (\<lambda>(x, y). ((x + (- bw / 2 - bx)) * s + px, (y + (- bh / 2 - by)) * s + py)) ps)
               = (\<lambda>x. (x + (- bw / 2 - bx)) * s + px) ` ?X"
    by (force simp: image_iff)
  have imY: "snd ` set (map (\<lambda>(x, y). ((x + (- bw / 2 - bx)) * s + px, (y + (- bh / 2 - by)) * s + py)) ps)
               = (\<lambda>y. (y + (- bh / 2 - by)) * s + py) ` ?Y"
    by (force simp: image_iff)
  show ?thesis
    unfolding enclosing_rect_def imX imY
      Min_affine_image [OF fin(1) ne(1)] Max_affine_image [OF fin(1) ne(1)]
      Min_affine_image [OF fin(2) ne(2)] Max_affine_image [OF fin(2) ne(2)]
    by (cases "0 \<le> s") (simp_all add: b field_simps)
qed

lemma fit_point_array:
  assumes ne: "ps \<noteq> []"
    and bounds: "vg_bounds ob (point_array ps) = Inr (Rect bx by bw bh)"
    and big: "1 / 10 ^ 12 < bw" "1 / 10 ^ 12 < bh"
  shows "\<exists>qs. vg_fit affine_Transform ob (point_array ps) (px, py) w h (Some False) = Inr (point_array qs)
           \<and> vg_bounds ob (point_array qs)
               = Inr (Rect (px - \<bar>min (w / bw) (h / bh)\<bar> * bw / 2) (py - \<bar>min (w / bw) (h / bh)\<bar> * bh / 2)
                       (\<bar>min (w / bw) (h / bh)\<bar> * bw) (\<bar>min (w / bw) (h / bh)\<bar> * bh))"
proof -
  let ?s = "min (w / bw) (h / bh)"
  let ?f = "\<lambda>(x, y). ((x + (- bw / 2 - bx)) * ?s + px, (y + (- bh / 2 - by)) * ?s + py)"
  from bounds have enc: "enclosing_rect ps = Rect bx by bw bh"
    using vg_bounds_point_array [OF ne, of ob] by simp
  have notnull: "point_array ps \<noteq> Undefined" "point_array ps \<noteq> Null"
    by (simp_all add: point_array_def)
  have "vg_fit affine_Transform ob (point_array ps) (px, py) w h (Some False)
          = affine_transformShape
              [Translate (Num px) (Num py), Scale (Num ?s) (Num ?s),
               Translate (Num (- bw / 2 - bx)) (Num (- bh / 2 - by))]
              (point_array ps)"
    using notnull bounds fit_transform_big [OF big, of affine_Transform bx "by" px py w h]
    by (simp add: vg_fit_def affine_Transform_def)
  also have "\<dots> = Inr (point_array (map ?f ps))"
    using affine_transformShapes_points [of px py ?s ?s "- bw / 2 - bx" "- bh / 2 - by" ps]
    by (simp add: point_array_def)
  finally have run: "vg_fit affine_Transform ob (point_array ps) (px, py) w h (Some False)
          = Inr (point_array (map ?f ps))" .
  have "map ?f ps \<noteq> []" using ne by simp
  then have "vg_bounds ob (point_array (map ?f ps)) = Inr (enclosing_rect (map ?f ps))"
    by (rule vg_bounds_point_array)
  also have "enclosing_rect (map ?f ps)
      = Rect (px - \<bar>?s\<bar> * bw / 2) (py - \<bar>?s\<bar> * bh / 2) (\<bar>?s\<bar> * bw) (\<bar>?s\<bar> * bh)"
    by (rule enclosing_rect_affine [OF ne enc])
  finally show ?thesis using run by blast
qed

lemma fit_any_shape:
  assumes "shape \<noteq> Undefined" and "shape \<noteq> Null"
    and bounds: "vg_bounds ob shape = Inr (Rect bx by bw bh)"
    and big: "1 / 10 ^ 12 < bw" "1 / 10 ^ 12 < bh"
  shows "vg_fit T ob shape (px, py) w h (Some False)
          = transformShape T
              (t_translate T
                 (t_scale T (t_translate T (new_Transform T) (Num px) (Num py))
                    (Num (min (w / bw) (h / bh))) (Num (min (w / bw) (h / bh))))
                 (Num (- bw / 2 - bx)) (Num (- bh / 2 - by)))
              shape"
  using assms(1,2) bounds fit_transform_big [OF big, of T bx "by" px py w h]
  by (simp add: vg_fit_def)

lemma fit_general:
  assumes "shape \<noteq> Undefined" and "shape \<noteq> Null"
    and bounds: "vg_bounds ob shape = Inr (Rect bx by bw bh)"
  shows "vg_fit T ob shape (px, py) w h (Some False)
          = transformShape T
              (t_translate T
                 (t_scale T (t_translate T (new_Transform T) (Num px) (Num py))
                    (Num (min (if clamp_small (Num bw) > 0 then w / clamp_small (Num bw) else MAX_VALUE)
                              (if clamp_small (Num bh) > 0 then h / clamp_small (Num bh) else MAX_VALUE)))
                    (Num (min (if clamp_small (Num bw) > 0 then w / clamp_small (Num bw) else MAX_VALUE)
                              (if clamp_small (Num bh) > 0 then h / clamp_small (Num bh) else MAX_VALUE))))
                 (Num (- clamp_small (Num bw) / 2 - bx)) (Num (- clamp_small (Num bh) / 2 - by)))
              shape"
  using assms
  by (simp add: vg_fit_def fit_transform_def fit_scale_def Rect_def new_Rect_def jsub_def Let_def)

lemma image_rect_Rect:
  "image_rect (px, py) s (cx, cy) (Rect bx by bw bh)
     = Rect (min ((bx + cx) * s + px) ((bx + bw + cx) * s + px))
            (min ((by + cy) * s + py) ((by + bh + cy) * s + py))
            (\<bar>s\<bar> * bw) (\<bar>s\<bar> * bh)"
  by (simp add: image_rect_def Rect_def new_Rect_def)

lemma enclosing_rect_image:
  assumes "ps \<noteq> []"
  shows "enclosing_rect (map (\<lambda>(x, y). ((x + cx) * s + px, (y + cy) * s + py)) ps)
           = image_rect (px, py) s (cx, cy) (enclosing_rect ps)"
proof -
  let ?X = "fst ` set ps" and ?Y = "snd ` set ps"
  have fin: "finite ?X" "finite ?Y" by simp_all
  have ne: "?X \<noteq> {}" "?Y \<noteq> {}" using assms(1) by simp_all
  have leX: "Min ?X \<le> Max ?X" using fin(1) ne(1) by simp
  have leY: "Min ?Y \<le> Max ?Y" using fin(2) ne(2) by simp
  have imX: "fst ` set (map (\<lambda>(x, y). ((x + cx) * s + px, (y + cy) * s + py)) ps)
               = (\<lambda>x. (x + cx) * s + px) ` ?X"
    by (force simp: image_iff)
  have imY: "snd ` set (map (\<lambda>(x, y). ((x + cx) * s + px, (y + cy) * s + py)) ps)
               = (\<lambda>y. (y + cy) * s + py) ` ?Y"
    by (force simp: image_iff)
  have e: "enclosing_rect ps = Rect (Min ?X) (Min ?Y) (Max ?X - Min ?X) (Max ?Y - Min ?Y)"
    by (simp add: enclosing_rect_def)
  show ?thesis
  proof (cases "0 \<le> s")
    case True
    have "(Min ?X + cx) * s \<le> (Max ?X + cx) * s" "(Min ?Y + cy) * s \<le> (Max ?Y + cy) * s"
      using True leX leY by (simp_all add: mult_right_mono)
    then show ?thesis
      unfolding e image_rect_Rect
      unfolding enclosing_rect_def imX imY
        Min_affine_image [OF fin(1) ne(1)] Max_affine_image [OF fin(1) ne(1)]
        Min_affine_image [OF fin(2) ne(2)] Max_affine_image [OF fin(2) ne(2)]
      using True by (simp add: algebra_simps)
  next
    case False
    have "(Max ?X + cx) * s \<le> (Min ?X + cx) * s" "(Max ?Y + cy) * s \<le> (Min ?Y + cy) * s"
      using False leX leY by (simp_all add: mult_right_mono_neg)
    then show ?thesis
      unfolding e image_rect_Rect
      unfolding enclosing_rect_def imX imY
        Min_affine_image [OF fin(1) ne(1)] Max_affine_image [OF fin(1) ne(1)]
        Min_affine_image [OF fin(2) ne(2)] Max_affine_image [OF fin(2) ne(2)]
      using False by (simp add: algebra_simps)
  qed
qed

lemma affine_acts_on_point_array:
  assumes ne: "ps \<noteq> []"
  shows "acts_on_bounds affine_Transform ob (point_array ps)"
  unfolding acts_on_bounds_def
proof (intro allI impI)
  fix p :: "real \<times> real" and s :: real and c :: "real \<times> real" and bounds
  assume b: "vg_bounds ob (point_array ps) = Inr bounds"
  obtain px py where p: "p = (px, py)" by (cases p)
  obtain cx cy where c: "c = (cx, cy)" by (cases c)
  let ?f = "\<lambda>(x, y). ((x + cx) * s + px, (y + cy) * s + py)"
  from b have enc: "bounds = enclosing_rect ps"
    using vg_bounds_point_array [OF ne, of ob] by simp
  have run: "transformShape affine_Transform
               (t_translate affine_Transform
                  (t_scale affine_Transform
                     (t_translate affine_Transform (new_Transform affine_Transform)
                        (Num (fst p)) (Num (snd p)))
                     (Num s) (Num s))
                  (Num (fst c)) (Num (snd c)))
               (point_array ps) = Inr (point_array (map ?f ps))"
    using affine_transformShapes_points [of px py s s cx cy ps]
    by (simp add: affine_Transform_def point_array_def p c)
  have "map ?f ps \<noteq> []" using ne by simp
  then have "vg_bounds ob (point_array (map ?f ps)) = Inr (enclosing_rect (map ?f ps))"
    by (rule vg_bounds_point_array)
  also have "enclosing_rect (map ?f ps) = image_rect p s c bounds"
    unfolding enc p c by (rule enclosing_rect_image [OF ne])
  finally show "\<exists>shape'.
               transformShape affine_Transform
                 (t_translate affine_Transform
                    (t_scale affine_Transform
                       (t_translate affine_Transform (new_Transform affine_Transform)
                          (Num (fst p)) (Num (snd p)))
                       (Num s) (Num s))
                    (Num (fst c)) (Num (snd c)))
                 (point_array ps) = Inr shape'
             \<and> vg_bounds ob shape' = Inr (image_rect p s c bounds)"
    using run by blast
qed

lemma fit_centred:
  assumes nn: "shape \<noteq> Undefined" "shape \<noteq> Null"
    and bounds: "vg_bounds ob shape = Inr (Rect bx by bw bh)"
    and big: "1 / 10 ^ 12 < bw" "1 / 10 ^ 12 < bh"
    and acts: "acts_on_bounds T ob shape"
  shows "\<exists>shape'. vg_fit T ob shape (px, py) w h (Some False) = Inr shape'
           \<and> vg_bounds ob shape'
               = Inr (Rect (px - \<bar>min (w / bw) (h / bh)\<bar> * bw / 2) (py - \<bar>min (w / bw) (h / bh)\<bar> * bh / 2)
                       (\<bar>min (w / bw) (h / bh)\<bar> * bw) (\<bar>min (w / bw) (h / bh)\<bar> * bh))"
proof -
  let ?s = "min (w / bw) (h / bh)"
  have pos: "0 < bw" "0 < bh"
  proof -
    have "(0::real) < 1 / 10 ^ 12" by simp
    with big show "0 < bw" "0 < bh" by linarith+
  qed
  from acts [unfolded acts_on_bounds_def, rule_format, OF bounds,
      of "(px, py)" ?s "(- bw / 2 - bx, - bh / 2 - by)"]
  obtain shape' where s':
    "transformShape T
       (t_translate T
          (t_scale T (t_translate T (new_Transform T) (Num px) (Num py)) (Num ?s) (Num ?s))
          (Num (- bw / 2 - bx)) (Num (- bh / 2 - by)))
       shape = Inr shape'"
    "vg_bounds ob shape' = Inr (image_rect (px, py) ?s (- bw / 2 - bx, - bh / 2 - by) (Rect bx by bw bh))"
    by auto
  have run: "vg_fit T ob shape (px, py) w h (Some False) = Inr shape'"
    using fit_any_shape [OF nn bounds big, of T px py w h] s'(1) by simp
  have x1: "(bx + (- bw / 2 - bx)) * ?s + px = px - ?s * bw / 2"
    and x2: "(bx + bw + (- bw / 2 - bx)) * ?s + px = px + ?s * bw / 2"
    and y1: "(by + (- bh / 2 - by)) * ?s + py = py - ?s * bh / 2"
    and y2: "(by + bh + (- bh / 2 - by)) * ?s + py = py + ?s * bh / 2"
    by (simp_all add: algebra_simps)
  have m: "\<And>s p b :: real. 0 < b \<Longrightarrow> min (p - s * b / 2) (p + s * b / 2) = p - \<bar>s\<bar> * b / 2"
  proof -
    fix s p b :: real
    assume b: "0 < b"
    show "min (p - s * b / 2) (p + s * b / 2) = p - \<bar>s\<bar> * b / 2"
    proof (cases "0 \<le> s")
      case True
      then have "0 \<le> s * b" using b by simp
      then show ?thesis using True by (simp add: min_def)
    next
      case False
      then have "s * b < 0" using b by (simp add: mult_neg_pos)
      then show ?thesis using False by (simp add: min_def abs_if)
    qed
  qed
  note mx = m [OF pos(1), of px ?s] and my = m [OF pos(2), of py ?s]
  have "image_rect (px, py) ?s (- bw / 2 - bx, - bh / 2 - by) (Rect bx by bw bh)
          = Rect (px - \<bar>?s\<bar> * bw / 2) (py - \<bar>?s\<bar> * bh / 2) (\<bar>?s\<bar> * bw) (\<bar>?s\<bar> * bh)"
    unfolding image_rect_Rect x1 x2 y1 y2 mx my ..
  with run s'(2) show ?thesis by simp
qed


text \<open>
  Claim C3, as the code has it.  For every shape whose bounds have a width and a height
  greater than \<open>10\<^sup>-\<^sup>1\<^sup>2\<close>, and every class \<^verbatim>\<open>Transform\<close>, \<^verbatim>\<open>fit(shape, pos, w, h, false)\<close> applies
  the one scale factor \<open>s = min(w / boundsWidth, h / boundsHeight)\<close> on both axes, between
  a translation to \<open>pos\<close> and a translation by minus the centre of the bounds.  For every
  such shape on whose bounds the transform acts with the operation added last first
  (\<open>acts_on_bounds\<close>), the result's bounds have the width \<open>|s| * boundsWidth\<close> and the height
  \<open>|s| * boundsHeight\<close>, so the same ratio of width to height when \<open>s\<close> is not zero, and are
  centred at \<open>pos\<close>.  The affine transform acts so on every point array, where the bounds
  are computed by \<^verbatim>\<open>vg.bounds\<close> itself.  A bounds dimension of at most \<open>10\<^sup>-\<^sup>1\<^sup>2\<close>, zero
  included, is replaced by zero: it gets the factor \<^verbatim>\<open>Number.MAX_VALUE\<close> in the minimum and
  is never a divisor.
\<close>

theorem fit_uniform_scale:
  assumes "1 / 10 ^ 12 < bw" and "1 / 10 ^ 12 < bh"
  shows
    "(shape \<noteq> Undefined \<and> shape \<noteq> Null \<and> vg_bounds ob shape = Inr (Rect bx by bw bh)
        \<longrightarrow> vg_fit T ob shape (px, py) w h (Some False)
              = transformShape T
                  (t_translate T
                     (t_scale T (t_translate T (new_Transform T) (Num px) (Num py))
                        (Num (min (w / bw) (h / bh))) (Num (min (w / bw) (h / bh))))
                     (Num (- bw / 2 - bx)) (Num (- bh / 2 - by)))
                  shape)
     \<and> (shape \<noteq> Undefined \<and> shape \<noteq> Null \<and> vg_bounds ob shape = Inr (Rect bx by bw bh)
          \<and> acts_on_bounds T ob shape
        \<longrightarrow> (\<exists>shape' rx ry rw rh.
               vg_fit T ob shape (px, py) w h (Some False) = Inr shape'
             \<and> vg_bounds ob shape' = Inr (Rect rx ry rw rh)
             \<and> rw = \<bar>min (w / bw) (h / bh)\<bar> * bw
             \<and> rh = \<bar>min (w / bw) (h / bh)\<bar> * bh
             \<and> (min (w / bw) (h / bh) \<noteq> 0 \<longrightarrow> rw / rh = bw / bh)
             \<and> rx + rw / 2 = px
             \<and> ry + rh / 2 = py))
     \<and> (ps \<noteq> [] \<longrightarrow> acts_on_bounds affine_Transform ob (point_array ps))
     \<and> (ps \<noteq> [] \<and> vg_bounds ob (point_array ps) = Inr (Rect bx by bw bh)
        \<longrightarrow> (\<exists>qs rx ry rw rh.
               vg_fit affine_Transform ob (point_array ps) (px, py) w h (Some False)
                 = Inr (point_array qs)
             \<and> vg_bounds ob (point_array qs) = Inr (Rect rx ry rw rh)
             \<and> rw = \<bar>min (w / bw) (h / bh)\<bar> * bw
             \<and> rh = \<bar>min (w / bw) (h / bh)\<bar> * bh
             \<and> (min (w / bw) (h / bh) \<noteq> 0 \<longrightarrow> rw / rh = bw / bh)
             \<and> rx + rw / 2 = px
             \<and> ry + rh / 2 = py))
     \<and> clamp_small (Num v) = (if 1 / 10 ^ 12 < v then v else 0)
     \<and> (shape' \<noteq> Undefined \<and> shape' \<noteq> Null \<and> vg_bounds ob shape' = Inr (Rect bx' by' bw' bh')
        \<longrightarrow> vg_fit T ob shape' (px, py) w h (Some False)
              = transformShape T
                  (t_translate T
                     (t_scale T (t_translate T (new_Transform T) (Num px) (Num py))
                        (Num (min (if clamp_small (Num bw') > 0 then w / clamp_small (Num bw') else MAX_VALUE)
                                  (if clamp_small (Num bh') > 0 then h / clamp_small (Num bh') else MAX_VALUE)))
                        (Num (min (if clamp_small (Num bw') > 0 then w / clamp_small (Num bw') else MAX_VALUE)
                                  (if clamp_small (Num bh') > 0 then h / clamp_small (Num bh') else MAX_VALUE))))
                     (Num (- clamp_small (Num bw') / 2 - bx')) (Num (- clamp_small (Num bh') / 2 - by')))
                  shape')"
proof -
  let ?s = "min (w / bw) (h / bh)"
  have pos: "0 < bw" "0 < bh"
  proof -
    have "(0::real) < 1 / 10 ^ 12" by simp
    with assms show "0 < bw" "0 < bh" by linarith+
  qed
  have ratio: "?s \<noteq> 0 \<longrightarrow> (\<bar>?s\<bar> * bw) / (\<bar>?s\<bar> * bh) = bw / bh"
    by simp
  have cx: "px - \<bar>?s\<bar> * bw / 2 + (\<bar>?s\<bar> * bw) / 2 = px"
    and cy: "py - \<bar>?s\<bar> * bh / 2 + (\<bar>?s\<bar> * bh) / 2 = py"
    by simp_all
  have uniform: "shape \<noteq> Undefined \<and> shape \<noteq> Null \<and> vg_bounds ob shape = Inr (Rect bx by bw bh)
        \<longrightarrow> vg_fit T ob shape (px, py) w h (Some False)
              = transformShape T
                  (t_translate T
                     (t_scale T (t_translate T (new_Transform T) (Num px) (Num py))
                        (Num ?s) (Num ?s))
                     (Num (- bw / 2 - bx)) (Num (- bh / 2 - by)))
                  shape"
    using fit_any_shape [OF _ _ _ assms] by blast
  have centred: "shape \<noteq> Undefined \<and> shape \<noteq> Null \<and> vg_bounds ob shape = Inr (Rect bx by bw bh)
          \<and> acts_on_bounds T ob shape
        \<longrightarrow> (\<exists>shape' rx ry rw rh.
               vg_fit T ob shape (px, py) w h (Some False) = Inr shape'
             \<and> vg_bounds ob shape' = Inr (Rect rx ry rw rh)
             \<and> rw = \<bar>?s\<bar> * bw
             \<and> rh = \<bar>?s\<bar> * bh
             \<and> (?s \<noteq> 0 \<longrightarrow> rw / rh = bw / bh)
             \<and> rx + rw / 2 = px
             \<and> ry + rh / 2 = py)"
  proof
    assume a: "shape \<noteq> Undefined \<and> shape \<noteq> Null \<and> vg_bounds ob shape = Inr (Rect bx by bw bh)
          \<and> acts_on_bounds T ob shape"
    from fit_centred [OF _ _ _ assms, of shape ob bx "by" T px py w h] a
    obtain shape' where s':
      "vg_fit T ob shape (px, py) w h (Some False) = Inr shape'"
      "vg_bounds ob shape'
         = Inr (Rect (px - \<bar>?s\<bar> * bw / 2) (py - \<bar>?s\<bar> * bh / 2) (\<bar>?s\<bar> * bw) (\<bar>?s\<bar> * bh))"
      by blast
    from s' ratio cx cy show "\<exists>shape' rx ry rw rh.
               vg_fit T ob shape (px, py) w h (Some False) = Inr shape'
             \<and> vg_bounds ob shape' = Inr (Rect rx ry rw rh)
             \<and> rw = \<bar>?s\<bar> * bw
             \<and> rh = \<bar>?s\<bar> * bh
             \<and> (?s \<noteq> 0 \<longrightarrow> rw / rh = bw / bh)
             \<and> rx + rw / 2 = px
             \<and> ry + rh / 2 = py"
      by blast
  qed
  have affine: "ps \<noteq> [] \<longrightarrow> acts_on_bounds affine_Transform ob (point_array ps)"
    using affine_acts_on_point_array by blast
  have points: "ps \<noteq> [] \<and> vg_bounds ob (point_array ps) = Inr (Rect bx by bw bh)
        \<longrightarrow> (\<exists>qs rx ry rw rh.
               vg_fit affine_Transform ob (point_array ps) (px, py) w h (Some False)
                 = Inr (point_array qs)
             \<and> vg_bounds ob (point_array qs) = Inr (Rect rx ry rw rh)
             \<and> rw = \<bar>?s\<bar> * bw
             \<and> rh = \<bar>?s\<bar> * bh
             \<and> (?s \<noteq> 0 \<longrightarrow> rw / rh = bw / bh)
             \<and> rx + rw / 2 = px
             \<and> ry + rh / 2 = py)"
  proof
    assume a: "ps \<noteq> [] \<and> vg_bounds ob (point_array ps) = Inr (Rect bx by bw bh)"
    from fit_point_array [OF _ _ assms, of ps ob bx "by" px py w h] a
    obtain qs where qs:
      "vg_fit affine_Transform ob (point_array ps) (px, py) w h (Some False) = Inr (point_array qs)"
      "vg_bounds ob (point_array qs)
         = Inr (Rect (px - \<bar>?s\<bar> * bw / 2) (py - \<bar>?s\<bar> * bh / 2) (\<bar>?s\<bar> * bw) (\<bar>?s\<bar> * bh))"
      by blast
    from qs ratio cx cy show "\<exists>qs rx ry rw rh.
               vg_fit affine_Transform ob (point_array ps) (px, py) w h (Some False)
                 = Inr (point_array qs)
             \<and> vg_bounds ob (point_array qs) = Inr (Rect rx ry rw rh)
             \<and> rw = \<bar>?s\<bar> * bw
             \<and> rh = \<bar>?s\<bar> * bh
             \<and> (?s \<noteq> 0 \<longrightarrow> rw / rh = bw / bh)
             \<and> rx + rw / 2 = px
             \<and> ry + rh / 2 = py"
      by blast
  qed
  have clamp: "clamp_small (Num v) = (if 1 / 10 ^ 12 < v then v else 0)"
    by (simp add: clamp_small_def)
  have general: "shape' \<noteq> Undefined \<and> shape' \<noteq> Null \<and> vg_bounds ob shape' = Inr (Rect bx' by' bw' bh')
        \<longrightarrow> vg_fit T ob shape' (px, py) w h (Some False)
              = transformShape T
                  (t_translate T
                     (t_scale T (t_translate T (new_Transform T) (Num px) (Num py))
                        (Num (min (if clamp_small (Num bw') > 0 then w / clamp_small (Num bw') else MAX_VALUE)
                                  (if clamp_small (Num bh') > 0 then h / clamp_small (Num bh') else MAX_VALUE)))
                        (Num (min (if clamp_small (Num bw') > 0 then w / clamp_small (Num bw') else MAX_VALUE)
                                  (if clamp_small (Num bh') > 0 then h / clamp_small (Num bh') else MAX_VALUE))))
                     (Num (- clamp_small (Num bw') / 2 - bx')) (Num (- clamp_small (Num bh') / 2 - by')))
                  shape'"
    using fit_general by blast
  from uniform centred affine points clamp general show ?thesis by blast
qed

theorem fit_uniform_scale_witness:
  "(1 / 10 ^ 12 :: real) < 4 \<and> (1 / 10 ^ 12 :: real) < 3
   \<and> point_array [(0, 0), (4, 0), (4, 3), (0, 3)] \<noteq> Undefined
   \<and> point_array [(0, 0), (4, 0), (4, 3), (0, 3)] \<noteq> Null
   \<and> [(0 :: real, 0 :: real), (4, 0), (4, 3), (0, 3)] \<noteq> []
   \<and> vg_bounds (\<lambda>v. Some (Rect 0 0 0 0)) (point_array [(0, 0), (4, 0), (4, 3), (0, 3)]) = Inr (Rect 0 0 4 3)
   \<and> acts_on_bounds affine_Transform (\<lambda>v. Some (Rect 0 0 0 0))
        (point_array [(0, 0), (4, 0), (4, 3), (0, 3)])
   \<and> min (8 / 4) (12 / 3) = (2 :: real)
   \<and> vg_fit affine_Transform (\<lambda>v. Some (Rect 0 0 0 0)) (point_array [(0, 0), (4, 0), (4, 3), (0, 3)])
        (10, 10) 8 12 (Some False)
       = Inr (point_array [(6, 7), (14, 7), (14, 13), (6, 13)])
   \<and> vg_bounds (\<lambda>v. Some (Rect 0 0 0 0)) (point_array [(6, 7), (14, 7), (14, 13), (6, 13)])
       = Inr (Rect 6 7 8 6)
   \<and> (\<exists>shape' rx ry rw rh.
         vg_fit affine_Transform (\<lambda>v. Some (Rect 0 0 0 0)) (point_array [(0, 0), (4, 0), (4, 3), (0, 3)])
           (10, 10) 8 12 (Some False) = Inr shape'
       \<and> vg_bounds (\<lambda>v. Some (Rect 0 0 0 0)) shape' = Inr (Rect rx ry rw rh)
       \<and> rw = \<bar>min (8 / 4) (12 / 3)\<bar> * 4
       \<and> rh = \<bar>min (8 / 4) (12 / 3)\<bar> * 3
       \<and> rw / rh = 4 / 3
       \<and> rx + rw / 2 = 10
       \<and> ry + rh / 2 = 10)"
proof -
  have big: "(1 / 10 ^ 12 :: real) < 4" "(1 / 10 ^ 12 :: real) < 3"
    by simp_all
  have b: "vg_bounds (\<lambda>v. Some (Rect 0 0 0 0)) (point_array [(0, 0), (4, 0), (4, 3), (0, 3)])
             = Inr (Rect 0 0 4 3)"
    by (simp add: vg_bounds_point_array enclosing_rect_def)
  have nn: "point_array [(0, 0), (4, 0), (4, 3), (0, 3)] \<noteq> Undefined"
    "point_array [(0, 0), (4, 0), (4, 3), (0, 3)] \<noteq> Null"
    by (simp_all add: point_array_def)
  have ne: "[(0 :: real, 0 :: real), (4, 0), (4, 3), (0, 3)] \<noteq> []"
    by simp
  have m: "min (8 / 4) (12 / 3) = (2 :: real)" "min (8 / 4) (12 / 3) \<noteq> (0 :: real)"
    by simp_all
  note claim = fit_uniform_scale [OF big, where ob = "\<lambda>v. Some (Rect 0 0 0 0)" and T = affine_Transform
        and shape = "point_array [(0, 0), (4, 0), (4, 3), (0, 3)]" and bx = 0 and ?by = 0
        and px = 10 and py = 10 and w = 8 and h = 12
        and ps = "[(0, 0), (4, 0), (4, 3), (0, 3)]"]
  from claim ne have acts: "acts_on_bounds affine_Transform (\<lambda>v. Some (Rect 0 0 0 0))
        (point_array [(0, 0), (4, 0), (4, 3), (0, 3)])"
    by blast
  from claim b nn have "vg_fit affine_Transform (\<lambda>v. Some (Rect 0 0 0 0)) (point_array [(0, 0), (4, 0), (4, 3), (0, 3)])
          (10, 10) 8 12 (Some False)
        = transformShape affine_Transform
            (t_translate affine_Transform
               (t_scale affine_Transform
                  (t_translate affine_Transform (new_Transform affine_Transform) (Num 10) (Num 10))
                  (Num (min (8 / 4) (12 / 3))) (Num (min (8 / 4) (12 / 3))))
               (Num (- 4 / 2 - 0)) (Num (- 3 / 2 - 0)))
            (point_array [(0, 0), (4, 0), (4, 3), (0, 3)])"
    by blast
  then have f: "vg_fit affine_Transform (\<lambda>v. Some (Rect 0 0 0 0)) (point_array [(0, 0), (4, 0), (4, 3), (0, 3)])
        (10, 10) 8 12 (Some False)
       = Inr (point_array [(6, 7), (14, 7), (14, 13), (6, 13)])"
    by (simp add: affine_Transform_def point_array_def transformPoint_def jadd_def jmul_def)
  have r: "vg_bounds (\<lambda>v. Some (Rect 0 0 0 0)) (point_array [(6, 7), (14, 7), (14, 13), (6, 13)])
       = Inr (Rect 6 7 8 6)"
    by (simp add: vg_bounds_point_array enclosing_rect_def)
  from claim b nn acts m(2) have c: "\<exists>shape' rx ry rw rh.
         vg_fit affine_Transform (\<lambda>v. Some (Rect 0 0 0 0)) (point_array [(0, 0), (4, 0), (4, 3), (0, 3)])
           (10, 10) 8 12 (Some False) = Inr shape'
       \<and> vg_bounds (\<lambda>v. Some (Rect 0 0 0 0)) shape' = Inr (Rect rx ry rw rh)
       \<and> rw = \<bar>min (8 / 4) (12 / 3)\<bar> * 4
       \<and> rh = \<bar>min (8 / 4) (12 / 3)\<bar> * 3
       \<and> rw / rh = 4 / 3
       \<and> rx + rw / 2 = 10
       \<and> ry + rh / 2 = 10"
    by blast
  from big nn ne b acts m(1) f r c show ?thesis by blast
qed

text \<open>The hypothesis on the order matters.  With the class whose operations act in the
  order of the calls, the same call of \<^verbatim>\<open>vg.fit\<close> moves the rectangle of the example to
  bounds centred at \<open>(22, 43/2)\<close>, not at the position \<open>(10, 10)\<close>.\<close>

lemma fit_call_order_not_centred:
  "vg_fit call_order_Transform (\<lambda>v. Some (Rect 0 0 0 0)) (point_array [(0, 0), (4, 0), (4, 3), (0, 3)])
        (10, 10) 8 12 (Some False)
       = Inr (point_array [(18, 37 / 2), (26, 37 / 2), (26, 49 / 2), (18, 49 / 2)])
   \<and> vg_bounds (\<lambda>v. Some (Rect 0 0 0 0)) (point_array [(18, 37 / 2), (26, 37 / 2), (26, 49 / 2), (18, 49 / 2)])
       = Inr (Rect 18 (37 / 2) 8 6)"
proof -
  have b: "vg_bounds (\<lambda>v. Some (Rect 0 0 0 0)) (point_array [(0, 0), (4, 0), (4, 3), (0, 3)])
             = Inr (Rect 0 0 4 3)"
    by (simp add: vg_bounds_point_array enclosing_rect_def)
  have t: "fit_transform call_order_Transform (Rect 0 0 4 3) (10, 10) 8 12 False
             = [Translate (Num 10) (Num 10), Scale (Num 2) (Num 2), Translate (Num (- 2)) (Num (- 3 / 2))]"
    by (simp add: fit_transform_def call_order_Transform_def clamp_small_def fit_scale_def
          Rect_def new_Rect_def jsub_def Let_def)
  have f: "vg_fit call_order_Transform (\<lambda>v. Some (Rect 0 0 0 0)) (point_array [(0, 0), (4, 0), (4, 3), (0, 3)])
        (10, 10) 8 12 (Some False)
       = Inr (point_array [(18, 37 / 2), (26, 37 / 2), (26, 49 / 2), (18, 49 / 2)])"
    using b t
    by (simp add: vg_fit_def call_order_Transform_def point_array_def transformPoint_def jadd_def jmul_def)
  have r: "vg_bounds (\<lambda>v. Some (Rect 0 0 0 0)) (point_array [(18, 37 / 2), (26, 37 / 2), (26, 49 / 2), (18, 49 / 2)])
       = Inr (Rect 18 (37 / 2) 8 6)"
    by (simp add: vg_bounds_point_array enclosing_rect_def)
  from f r show ?thesis by simp
qed

text \<open>The claim as stated (every positive width and height) fails below the threshold of
  the guard \<^verbatim>\<open>bw = (bw > 0.000000000001) ? bw : 0\<close>.  The bounds of the points \<open>(0, 0)\<close> and
  \<open>(10\<^sup>-\<^sup>1\<^sup>3, 1)\<close> have the positive width \<open>10\<^sup>-\<^sup>1\<^sup>3\<close> and the height 1; fitted at \<open>(0, 0)\<close> into
  the width \<open>10\<^sup>-\<^sup>1\<^sup>4\<close> and the height 1 the claim's factor is \<open>1/10\<close>, but the code scales by
  1: the result keeps the height 1, and its bounds are centred at \<open>x = 10\<^sup>-\<^sup>1\<^sup>3 / 2\<close>, not at 0.\<close>

theorem fit_tiny_bounds_counterexample:
  "vg_bounds (\<lambda>v. Some (Rect 0 0 0 0)) (point_array [(0, 0), (1 / 10 ^ 13, 1)]) = Inr (Rect 0 0 (1 / 10 ^ 13) 1)
   \<and> (0 :: real) < 1 / 10 ^ 13 \<and> (0 :: real) < 1
   \<and> min ((1 / 10 ^ 14) / (1 / 10 ^ 13)) (1 / 1) = (1 / 10 :: real)
   \<and> vg_fit affine_Transform (\<lambda>v. Some (Rect 0 0 0 0)) (point_array [(0, 0), (1 / 10 ^ 13, 1)])
        (0, 0) (1 / 10 ^ 14) 1 (Some False)
       = Inr (point_array [(0, - 1 / 2), (1 / 10 ^ 13, 1 / 2)])
   \<and> vg_bounds (\<lambda>v. Some (Rect 0 0 0 0)) (point_array [(0, - 1 / 2), (1 / 10 ^ 13, 1 / 2)])
       = Inr (Rect 0 (- 1 / 2) (1 / 10 ^ 13) 1)"
proof -
  have b: "vg_bounds (\<lambda>v. Some (Rect 0 0 0 0)) (point_array [(0, 0), (1 / 10 ^ 13, 1)])
             = Inr (Rect 0 0 (1 / 10 ^ 13) 1)"
    by (simp add: vg_bounds_point_array enclosing_rect_def)
  have m: "min ((1 / 10 ^ 14) / (1 / 10 ^ 13)) (1 / 1) = (1 / 10 :: real)"
    by simp
  have t: "fit_transform affine_Transform (Rect 0 0 (1 / 10 ^ 13) 1) (0, 0) (1 / 10 ^ 14) 1 False
             = [Translate (Num 0) (Num 0), Scale (Num 1) (Num 1), Translate (Num 0) (Num (- 1 / 2))]"
    by (simp add: fit_transform_def affine_Transform_def clamp_small_def fit_scale_def MAX_VALUE_def
          Rect_def new_Rect_def jsub_def Let_def)
  have f: "vg_fit affine_Transform (\<lambda>v. Some (Rect 0 0 0 0)) (point_array [(0, 0), (1 / 10 ^ 13, 1)])
        (0, 0) (1 / 10 ^ 14) 1 (Some False)
       = Inr (point_array [(0, - 1 / 2), (1 / 10 ^ 13, 1 / 2)])"
    using b t
    by (simp add: vg_fit_def affine_Transform_def point_array_def transformPoint_def jadd_def jmul_def)
  have r: "vg_bounds (\<lambda>v. Some (Rect 0 0 0 0)) (point_array [(0, - 1 / 2), (1 / 10 ^ 13, 1 / 2)])
       = Inr (Rect 0 (- 1 / 2) (1 / 10 ^ 13) 1)"
    by (simp add: vg_bounds_point_array enclosing_rect_def)
  from b m f r show ?thesis by simp
qed

end
